theory Spec2Isabelle
  imports Main
begin

section \<open>Patching and restoring native operations (tracing on and off)\<close>

text \<open>
  The tracing module keeps a flag \<open>tracingEnabled\<close>, captures the native
  operations when it is loaded (module variables, mirrored on \<open>window\<close>) and
  assigns to ten slots of the browser environment in \<open>enableTracing\<close>.
  A slot holds either a native implementation or a tracing wrapper that calls the
  implementation it closed over.
\<close>

datatype impl = Native string | Traced string impl

record browser =
  createElement :: impl
  appendChild :: impl
  setAttribute :: impl
  removeAttribute :: impl
  className :: impl
  jsonParse :: impl
  innerHTML :: impl
  localStorageGetItem :: impl
  regExpExec :: impl
  windowFunction :: impl

record saved =
  originalCreateElement :: impl
  appendChildPropertyDescriptor :: impl
  nativeSetAttribute :: impl
  nativeClassNameDescriptor :: impl
  nativeInnerHTMLDescriptor :: impl
  nativeExec :: impl
  nativeFunction :: impl
  nativeJSONParse :: impl
  nativeLocalStorageGetItem :: impl

record tracing =
  env :: browser
  originals :: saved
  tracingEnabled :: bool

text \<open>Loading the module: the \<open>var native... = ...\<close> lines at its top.\<close>

definition loadModule :: "browser \<Rightarrow> tracing" where
  "loadModule e =
     \<lparr> env = e,
       originals =
         \<lparr> originalCreateElement = createElement e,
           appendChildPropertyDescriptor = appendChild e,
           nativeSetAttribute = setAttribute e,
           nativeClassNameDescriptor = className e,
           nativeInnerHTMLDescriptor = innerHTML e,
           nativeExec = regExpExec e,
           nativeFunction = windowFunction e,
           nativeJSONParse = jsonParse e,
           nativeLocalStorageGetItem = localStorageGetItem e \<rparr>,
       tracingEnabled = False \<rparr>"

text \<open>
  \<open>enableTracing\<close>: the wrappers close over the values captured at load time,
  but the wrapper of \<open>removeAttribute\<close> closes over the value found in the slot at
  the moment of the call (\<open>var nativeRemoveAttribute = Element.prototype.removeAttribute\<close>
  is local to the function). The assignment \<open>localStorage.getItem = ...\<close> goes to
  the storage's own setter: it stores an item under the name \<open>getItem\<close> and leaves
  the method as it is, so that slot does not change (the items of the storage are
  not part of the state).
\<close>

definition enableTracing :: "tracing \<Rightarrow> tracing" where
  "enableTracing st =
     (if tracingEnabled st then st
      else
        st \<lparr> tracingEnabled := True,
             env := (env st)
               \<lparr> createElement := Traced ''createElement'' (originalCreateElement (originals st)),
                 appendChild := Traced ''appendChild'' (appendChildPropertyDescriptor (originals st)),
                 setAttribute := Traced ''setAttribute'' (nativeSetAttribute (originals st)),
                 removeAttribute := Traced ''removeAttribute'' (removeAttribute (env st)),
                 className := Traced ''className'' (nativeClassNameDescriptor (originals st)),
                 jsonParse := Traced ''JSON.parse'' (nativeJSONParse (originals st)),
                 innerHTML := Traced ''innerHTML'' (nativeInnerHTMLDescriptor (originals st)),
                 regExpExec := Traced ''RegExp.prototype.exec'' (nativeExec (originals st)),
                 windowFunction := Traced ''Function'' (nativeFunction (originals st)) \<rparr> \<rparr>)"

text \<open>
  \<open>disableTracing\<close>: its assignments, in the order of the source; there is none
  for \<open>Element.prototype.removeAttribute\<close>, and the one to \<open>localStorage.getItem\<close>
  again only stores an item.
\<close>

definition disableTracing :: "tracing \<Rightarrow> tracing" where
  "disableTracing st =
     (if \<not> tracingEnabled st then st
      else
        st \<lparr> env := (env st)
               \<lparr> jsonParse := nativeJSONParse (originals st),
                 createElement := originalCreateElement (originals st),
                 appendChild := appendChildPropertyDescriptor (originals st),
                 setAttribute := nativeSetAttribute (originals st),
                 innerHTML := nativeInnerHTMLDescriptor (originals st),
                 regExpExec := nativeExec (originals st),
                 windowFunction := nativeFunction (originals st),
                 className := nativeClassNameDescriptor (originals st) \<rparr>,
             tracingEnabled := False \<rparr>)"

definition nativeBrowser :: browser where
  "nativeBrowser =
     \<lparr> createElement = Native ''createElement'',
       appendChild = Native ''appendChild'',
       setAttribute = Native ''setAttribute'',
       removeAttribute = Native ''removeAttribute'',
       className = Native ''className'',
       jsonParse = Native ''JSON.parse'',
       innerHTML = Native ''innerHTML'',
       localStorageGetItem = Native ''localStorage.getItem'',
       regExpExec = Native ''RegExp.prototype.exec'',
       windowFunction = Native ''Function'' \<rparr>"

section \<open>The backend's traversal endpoint\<close>

text \<open>
  An HTTP response under construction: \<open>res.status\<close> sets the status code,
  \<open>res.end\<close> sends the body with the status code of that moment. A second
  \<open>res.end\<close> on a response that has been sent changes nothing of what the
  client received (Node's \<open>OutgoingMessage.end\<close> returns at once when finished).
  A body is the JSON object that was stringified: \<open>{err: ...}\<close> or
  \<open>{steps}\<close>; a key whose value is \<open>undefined\<close> is left out by
  \<open>JSON.stringify\<close>, which is \<open>None\<close> here.
\<close>

record 'step body =
  err :: "string option"
  steps :: "'step list option"

definition JErr :: "string \<Rightarrow> 'step body" where
  "JErr msg = \<lparr> err = Some msg, steps = None \<rparr>"

definition JSteps :: "'step list option \<Rightarrow> 'step body" where
  "JSteps ss = \<lparr> err = None, steps = ss \<rparr>"

record 'step response =
  statusCode :: nat
  sent :: "(nat \<times> 'step body) option"

definition newResponse :: "'step response" where
  "newResponse = \<lparr> statusCode = 200, sent = None \<rparr>"

definition res_status :: "nat \<Rightarrow> 'step response \<Rightarrow> 'step response" where
  "res_status n res = res \<lparr> statusCode := n \<rparr>"

definition res_end :: "'step body \<Rightarrow> 'step response \<Rightarrow> 'step response" where
  "res_end b res =
     (case sent res of
        Some _ \<Rightarrow> res
      | None \<Rightarrow> res \<lparr> sent := Some (statusCode res, b) \<rparr>)"

text \<open>
  What awaiting \<open>traverse(...)\<close> gives \<open>finishRequest\<close>: the promise is fulfilled
  with the steps, or rejected. \<open>traverse\<close> itself is not among the sources; the
  steps it had resolved when it gave up are carried by \<open>Rejected\<close> so that the
  handler's use of them can be stated.
\<close>

datatype 'step traversal = Fulfilled "'step list" | Rejected "'step list"

definition finishRequest :: "'step traversal \<Rightarrow> 'step response \<Rightarrow> 'step response" where
  "finishRequest tr res =
     (case tr of
        Fulfilled ss \<Rightarrow> res_end (JSteps (Some ss)) res
      | Rejected partial \<Rightarrow>
          res_end (JSteps None)
            (res_end (JErr ''Log not found in backend'') (res_status 500 res)))"

text \<open>
  \<open>tryTraverse\<close>: \<open>hasLog n\<close> is the store's answer to the existence check of
  attempt \<open>n\<close> (writes land while the handler waits, so the answer depends on the
  attempt). The result is the list of delays handed to \<open>setTimeout\<close>, in
  milliseconds, and what the handler does at the end.
\<close>

datatype poll_end = FinishRequest | ErrorResponse nat string

function tryTraverse :: "(nat \<Rightarrow> bool) \<Rightarrow> nat \<Rightarrow> nat list \<times> poll_end" where
  "tryTraverse hasLog previousAttempts =
     (if hasLog previousAttempts then ([], FinishRequest)
      else
        (let timeout = 250;
             timeElapsed = timeout * previousAttempts
         in if timeElapsed > 2000
            then ([], ErrorResponse 500 ''Log not found - might still be saving data'')
            else (case tryTraverse hasLog (previousAttempts + 1) of
                    (waits, r) \<Rightarrow> (timeout # waits, r))))"
  by pat_completeness auto
termination
  by (relation "measure (\<lambda>(hasLog, previousAttempts). 9 - previousAttempts)") auto

text \<open>The whole \<open>/traverse\<close> handler: poll, then finish or fail.\<close>

definition traverseHandler ::
  "(nat \<Rightarrow> bool) \<Rightarrow> 'step traversal \<Rightarrow> nat list \<times> 'step response" where
  "traverseHandler hasLog tr =
     (case tryTraverse hasLog 0 of
        (waits, FinishRequest) \<Rightarrow> (waits, finishRequest tr newResponse)
      | (waits, ErrorResponse code msg) \<Rightarrow>
          (waits, res_end (JErr msg) (res_status code newResponse)))"

text \<open>
  The \<open>/loadLog\<close> handler: one delay of 500 ms, then one read of the store, whose
  answer is sent as it is. \<open>loadLog n\<close> is the store's answer to the \<open>n\<close>-th read
  (\<open>None\<close>: no such record); the handler only ever makes read \<open>0\<close>.
\<close>

definition loadLogHandler :: "(nat \<Rightarrow> 'log option) \<Rightarrow> nat list \<times> 'log option" where
  "loadLogHandler loadLog = ([500], loadLog 0)"

section \<open>Origins and tracked strings\<close>

text \<open>
  Modelled from the spec: the Origin record. Class \<open>Origin\<close> (\<open>../origin\<close>) is not
  among the sources; the fields are those of the spec's data model that the string
  handlers set: \<open>action\<close>, \<open>value\<close>, \<open>inputValues\<close>,
  \<open>inputValuesCharacterIndex\<close> and \<open>valueItems\<close>. A serialized value item
  refers to its source by position in \<open>inputValues\<close> (\<open>None\<close> when the source is
  not one of them) and keeps the segment's offset and length. A character index is
  the value the handler computed for it: a number, or what JavaScript's \<open>+\<close>
  gave where an operand was no number.
\<close>

datatype indexValue = IndexNumber int | IndexText string | IndexNaN

datatype origin =
  Origin (o_action: "string option") (o_value: string) (o_inputValues: "origin list")
    (o_inputValuesCharacterIndex: "indexValue list")
    (o_valueItems: "(nat option \<times> int \<times> nat) list option")

datatype error = TypeError | SyntaxError | Thrown string

text \<open>
  A \<open>FromJSString\<close> object has the two properties \<open>value\<close> and \<open>origin\<close>.
  The type of the value is a parameter: the constructor is handed any JavaScript
  value, while the string handlers and the proxy work on objects whose value is a
  plain string.
\<close>

datatype 'v fromjs = FromJS (fvalue: 'v) (forigin: origin)

datatype jsvalue =
  VUndefined | VNull | VBoolean bool | VNumber int | VString string
| VTracked "jsvalue fromjs"

type_synonym tracked = "string fromjs"

fun typeof :: "jsvalue \<Rightarrow> string" where
  "typeof VUndefined = ''undefined''"
| "typeof VNull = ''object''"
| "typeof (VBoolean b) = ''boolean''"
| "typeof (VNumber n) = ''number''"
| "typeof (VString s) = ''string''"
| "typeof (VTracked t) = ''object''"

text \<open>
  The loop \<open>while (value.isStringTraceString) value = value.value\<close>. Reading a
  property of \<open>undefined\<close> or \<open>null\<close> throws; a boolean, a number and a plain
  string have no such property, so the loop stops.
\<close>

fun unwrapLoop :: "jsvalue \<Rightarrow> error + jsvalue" where
  "unwrapLoop (VTracked (FromJS v org)) = unwrapLoop v"
| "unwrapLoop VUndefined = Inl TypeError"
| "unwrapLoop VNull = Inl TypeError"
| "unwrapLoop v = Inr v"

definition FromJSString :: "jsvalue \<Rightarrow> origin \<Rightarrow> error + jsvalue fromjs" where
  "FromJSString v org =
     (case unwrapLoop v of
        Inl e \<Rightarrow> Inl e
      | Inr v' \<Rightarrow> Inr (FromJS v' org))"

text \<open>
  Modelled from the spec: \<open>stringTraceUseValue\<close> (not among the sources), the single
  normalization step that takes an already-tracked value to its inner value and
  leaves every other value as it is.
\<close>

fun stringTraceUseValue :: "jsvalue \<Rightarrow> jsvalue" where
  "stringTraceUseValue (VTracked t) = fvalue t"
| "stringTraceUseValue v = v"

record options =
  opt_value :: jsvalue
  opt_origin :: "origin option"

text \<open>
  \<open>makeTraceObject\<close>: the result \<open>VTracked obj\<close> stands for the proxy around
  \<open>obj\<close>. The test \<open>options.value === undefined\<close> comes after the \<open>typeof\<close>
  test and can no longer succeed.
\<close>

definition makeTraceObject :: "options \<Rightarrow> error + jsvalue" where
  "makeTraceObject opts =
     (if typeof (opt_value opts) \<noteq> ''string'' then Inr (opt_value opts)
      else
        (case opt_origin opts of
           None \<Rightarrow> Inl (Thrown ''invalid options for makeTraceObject'')
         | Some org \<Rightarrow>
             (case FromJSString (stringTraceUseValue (opt_value opts)) org of
                Inl e \<Rightarrow> Inl e
              | Inr obj \<Rightarrow> Inr (VTracked obj))))"

text \<open>A value in which every tracked string holds a plain string.\<close>

fun plainInside :: "jsvalue \<Rightarrow> bool" where
  "plainInside (VTracked (FromJS (VString s) org)) = True"
| "plainInside (VTracked t) = False"
| "plainInside v = True"

subsection \<open>Property access through the proxy\<close>

text \<open>
  \<open>isNaN(parseFloat(name))\<close> for a property name: \<open>parseFloat\<close> skips leading
  white space and an optional sign, and finds a number exactly when what follows
  starts with a digit, with a dot and a digit, or with \<open>Infinity\<close>.
\<close>

definition isDigit :: "char \<Rightarrow> bool" where
  "isDigit c = (c \<in> set ''0123456789'')"

definition isWhiteSpace :: "char \<Rightarrow> bool" where
  "isWhiteSpace c = (c \<in> {CHR '' '', CHR 0x09, CHR 0x0A, CHR 0x0B, CHR 0x0C, CHR 0x0D})"

fun startsDecimal :: "string \<Rightarrow> bool" where
  "startsDecimal (c # d # cs) =
     (isDigit c \<or> (c = CHR ''.'' \<and> isDigit d) \<or> take 8 (c # d # cs) = ''Infinity'')"
| "startsDecimal [c] = isDigit c"
| "startsDecimal [] = False"

fun dropSign :: "string \<Rightarrow> string" where
  "dropSign (c # cs) = (if c = CHR ''+'' \<or> c = CHR ''-'' then cs else c # cs)"
| "dropSign [] = []"

definition parseFloat_isNaN :: "string \<Rightarrow> bool" where
  "parseFloat_isNaN name = (\<not> startsDecimal (dropSign (dropWhile isWhiteSpace name)))"

text \<open>
  \<open>s[name]\<close> on a plain string, for a name that \<open>parseFloat\<close> accepts: the
  one-character string at that position when the name is the canonical decimal
  form of an index below the length, \<open>undefined\<close> otherwise.
\<close>

definition digitVal :: "char \<Rightarrow> nat" where
  "digitVal c = of_char c - 48"

definition canonicalIndex :: "string \<Rightarrow> nat option" where
  "canonicalIndex name =
     (if name \<noteq> [] \<and> list_all isDigit name \<and> (hd name \<noteq> CHR ''0'' \<or> name = ''0'')
      then Some (foldl (\<lambda>a c. 10 * a + digitVal c) 0 name)
      else None)"

definition stringIndex :: "string \<Rightarrow> string \<Rightarrow> jsvalue" where
  "stringIndex s name =
     (case canonicalIndex name of
        Some i \<Rightarrow> if i < length s then VString [s ! i] else VUndefined
      | None \<Rightarrow> VUndefined)"

text \<open>
  The names of the function-valued own properties of \<open>String.prototype\<close>, each
  of which but \<open>toString\<close> and \<open>valueOf\<close> is given \<open>handlerFunction\<close> on
  \<open>FromJSString.prototype\<close>.
\<close>

definition nativeStringFunctionNames :: "string list" where
  "nativeStringFunctionNames =
     [''constructor'', ''anchor'', ''big'', ''blink'', ''bold'', ''charAt'', ''charCodeAt'',
      ''codePointAt'', ''concat'', ''endsWith'', ''fontcolor'', ''fontsize'', ''fixed'',
      ''includes'', ''indexOf'', ''italics'', ''lastIndexOf'', ''link'', ''localeCompare'',
      ''match'', ''normalize'', ''padEnd'', ''padStart'', ''repeat'', ''replace'', ''search'',
      ''slice'', ''small'', ''split'', ''strike'', ''sub'', ''substr'', ''substring'', ''sup'',
      ''startsWith'', ''toString'', ''trim'', ''trimLeft'', ''trimRight'',
      ''toLocaleLowerCase'', ''toLocaleUpperCase'', ''toLowerCase'', ''toUpperCase'',
      ''valueOf'']"

datatype prototypeMethod = ValueOf | ToJSON | ToString

datatype jsprop =
  PValue jsvalue | POrigin origin | PMethod prototypeMethod | PHandler string
| PWindowString | PInherited

datatype propkey = KString string | KSymbol string

text \<open>
  \<open>stringTraceObject[name]\<close>: the own properties, then what
  \<open>FromJSString.prototype\<close> defines (the \<open>length\<close> getter runs with the object
  itself as \<open>this\<close>), then whatever \<open>Object.prototype\<close> has.
\<close>

definition objectGet :: "tracked \<Rightarrow> string \<Rightarrow> jsprop" where
  "objectGet t name =
     (if name = ''origin'' then POrigin (forigin t)
      else if name = ''value'' then PValue (VString (fvalue t))
      else if name = ''isStringTraceString'' then PValue (VBoolean True)
      else if name = ''valueOf'' then PMethod ValueOf
      else if name = ''toJSON'' then PMethod ToJSON
      else if name = ''toString'' then PMethod ToString
      else if name = ''length'' then PValue (VNumber (int (length (fvalue t))))
      else if name \<in> set nativeStringFunctionNames then PHandler name
      else PInherited)"

text \<open>The \<open>get\<close> trap of the proxy.\<close>

definition proxyGet :: "tracked \<Rightarrow> propkey \<Rightarrow> jsprop" where
  "proxyGet t key =
     (case key of
        KSymbol n \<Rightarrow> PInherited
      | KString name \<Rightarrow>
          if \<not> parseFloat_isNaN name then PValue (stringIndex (fvalue t) name)
          else if name = ''constructor'' then PWindowString
          else objectGet t name)"

text \<open>
  The bodies of \<open>valueOf\<close>, \<open>toJSON\<close> and \<open>toString\<close> are \<open>return this.value\<close>;
  called on the proxy, \<open>this\<close> is the proxy and the read goes through the trap.
\<close>

definition invokeMethod :: "tracked \<Rightarrow> prototypeMethod \<Rightarrow> jsprop" where
  "invokeMethod t m =
     (case m of
        ValueOf \<Rightarrow> proxyGet t (KString ''value'')
      | ToJSON \<Rightarrow> proxyGet t (KString ''value'')
      | ToString \<Rightarrow> proxyGet t (KString ''value''))"

section \<open>The string handlers\<close>

subsection \<open>Native string operations\<close>

text \<open>
  The operations of the JavaScript runtime that the handlers call on the plain
  string, after ECMAScript, for integer arguments (\<open>None\<close> is \<open>undefined\<close>).
  A string is the list of its code units.
\<close>

definition js_slice :: "string \<Rightarrow> int \<Rightarrow> int option \<Rightarrow> string" where
  "js_slice s start end =
     (let len = int (length s);
          from = (if start < 0 then max (len + start) 0 else min start len);
          to = (case end of
                  None \<Rightarrow> len
                | Some e \<Rightarrow> if e < 0 then max (len + e) 0 else min e len);
          span = max (to - from) 0
      in take (nat span) (drop (nat from) s))"

definition js_substr :: "string \<Rightarrow> int \<Rightarrow> int option \<Rightarrow> string" where
  "js_substr s start len =
     (let size = int (length s);
          intStart = (if start < 0 then max (size + start) 0 else start);
          end = (case len of None \<Rightarrow> size | Some l \<Rightarrow> l);
          resultLength = min (max end 0) (size - intStart)
      in if resultLength \<le> 0 then []
         else take (nat resultLength) (drop (nat intStart) s))"

definition js_substring :: "string \<Rightarrow> nat \<Rightarrow> nat option \<Rightarrow> string" where
  "js_substring s start end =
     (let len = length s;
          finalStart = min start len;
          finalEnd = (case end of None \<Rightarrow> len | Some e \<Rightarrow> min e len);
          from = min finalStart finalEnd;
          to = max finalStart finalEnd
      in take (to - from) (drop from s))"

text \<open>\<open>s.indexOf(p)\<close>: the first position at which \<open>p\<close> occurs in \<open>s\<close>.\<close>

fun indexOfFrom :: "string \<Rightarrow> string \<Rightarrow> nat \<Rightarrow> nat option" where
  "indexOfFrom p [] i = (if p = [] then Some i else None)"
| "indexOfFrom p (c # cs) i =
     (if take (length p) (c # cs) = p then Some i else indexOfFrom p cs (Suc i))"

definition js_indexOf :: "string \<Rightarrow> string \<Rightarrow> int" where
  "js_indexOf s p = (case indexOfFrom p s 0 of None \<Rightarrow> - 1 | Some i \<Rightarrow> int i)"

text \<open>
  The decimal form of an integer, which is what \<open>Number.prototype.toString\<close>
  gives for an integer of magnitude below \<open>10^21\<close> (from there on the runtime
  prints an exponent form). It is used for positions in a string and for the index
  arguments of \<open>slice\<close>, \<open>substr\<close> and \<open>split\<close>, which are taken to be such
  integers.
\<close>

definition digitChar :: "nat \<Rightarrow> char" where
  "digitChar n = char_of (48 + n)"

function showNat :: "nat \<Rightarrow> string" where
  "showNat n = (if n < 10 then [digitChar n] else showNat (n div 10) @ [digitChar (n mod 10)])"
  by pat_completeness auto
termination
  by (relation "measure id") auto

declare showNat.simps [simp del]

definition showInt :: "int \<Rightarrow> string" where
  "showInt i = (if i < 0 then CHR ''-'' # showNat (nat (- i)) else showNat (nat i))"

subsection \<open>The Value Map\<close>

text \<open>
  Modelled from the spec: the Value Map (\<open>../value-map\<close> is not among the sources).
  It is the ordered sequence of segments \<open>{origin, originOffset, length}\<close>;
  \<open>appendString(text, origin, offset)\<close>, the spec's append-segment, adds at the end a
  segment of length \<open>text.length\<close> attributed to \<open>origin\<close> from \<open>offset\<close> on;
  \<open>serialize(inputValues)\<close> turns each segment's origin into its position among
  \<open>inputValues\<close>.
\<close>

record segment =
  seg_origin :: origin
  originOffset :: int
  seg_length :: nat

type_synonym valueMap = "segment list"

definition appendString :: "string \<Rightarrow> origin \<Rightarrow> int \<Rightarrow> valueMap \<Rightarrow> valueMap" where
  "appendString text org offset vm =
     vm @ [\<lparr> seg_origin = org, originOffset = offset, seg_length = length text \<rparr>]"

fun positionOf :: "origin \<Rightarrow> origin list \<Rightarrow> nat \<Rightarrow> nat option" where
  "positionOf org [] i = None"
| "positionOf org (x # xs) i = (if x = org then Some i else positionOf org xs (Suc i))"

definition serialize :: "origin list \<Rightarrow> valueMap \<Rightarrow> (nat option \<times> int \<times> nat) list" where
  "serialize inputValues vm =
     map (\<lambda>seg. (positionOf (seg_origin seg) inputValues 0, originOffset seg, seg_length seg)) vm"

text \<open>
  The range of the output that each segment covers, as a lookup by output position
  reads the sequence: a segment starts where the one before it ends.
\<close>

fun segmentRanges :: "nat \<Rightarrow> valueMap \<Rightarrow> (nat \<times> nat) list" where
  "segmentRanges start [] = []"
| "segmentRanges start (seg # vm) =
     (start, start + seg_length seg) # segmentRanges (start + seg_length seg) vm"

text \<open>
  Ranges that partition \<open>[start, end)\<close> from left to right: each begins where the
  one before it ends, none ends before it begins, and the last ends at \<open>end\<close>.
\<close>

fun partitions :: "nat \<Rightarrow> nat \<Rightarrow> (nat \<times> nat) list \<Rightarrow> bool" where
  "partitions start end [] = (start = end)"
| "partitions start end ((a, b) # rs) = (a = start \<and> a \<le> b \<and> partitions b end rs)"



subsection \<open>Arguments and their origins\<close>

text \<open>
  A string argument is a plain string or a tracked one; \<open>argValue\<close> is what
  \<open>unstringTracifyArguments\<close> leaves of it. Modelled from the spec:
  \<open>untrackedArgument\<close> (not among the sources) gives an untracked literal a root
  origin of its own, whose value is the literal. For an argument that is not a
  string the handler builds \<open>{value: str, origin: new Origin({value: str, ...})}\<close>
  from the argument's string form; it is taken as a root origin with that value.
\<close>

datatype strarg = Plain string | Tracked tracked

fun argValue :: "strarg \<Rightarrow> string" where
  "argValue (Plain s) = s"
| "argValue (Tracked t) = fvalue t"

definition untrackedArgument :: "string \<Rightarrow> origin" where
  "untrackedArgument s = Origin (Some ''Untracked Argument'') s [] [] None"

definition otherArgumentOrigin :: "string \<Rightarrow> origin" where
  "otherArgumentOrigin str = Origin None str [] [] None"

fun stringArgumentOrigin :: "strarg \<Rightarrow> origin" where
  "stringArgumentOrigin (Tracked t) = forigin t"
| "stringArgumentOrigin (Plain s) = untrackedArgument s"

text \<open>
  The end of \<open>handlerFunction\<close> for a string result: the tracked string with its
  new Origin. Property names are ASCII, and so is the upper case of the first letter.
\<close>

definition toUpperCaseChar :: "char \<Rightarrow> char" where
  "toUpperCaseChar c =
     (if c \<in> set ''abcdefghijklmnopqrstuvwxyz'' then char_of (of_char c - (32::nat)) else c)"

definition capitalizeFirstCharacter :: "string \<Rightarrow> string" where
  "capitalizeFirstCharacter str =
     map toUpperCaseChar (js_slice str 0 (Some 1)) @ js_slice str 1 None"

definition actionName :: "string \<Rightarrow> string" where
  "actionName propertyName = capitalizeFirstCharacter propertyName @ '' Call''"

definition trackResult :: "string \<Rightarrow> string \<Rightarrow> origin list \<Rightarrow> valueMap \<Rightarrow> tracked" where
  "trackResult propertyName newVal inputValues vm =
     FromJS newVal
       (Origin (Some (actionName propertyName)) newVal inputValues []
          (Some (serialize inputValues vm)))"

subsection \<open>\<open>slice\<close> and \<open>substr\<close>\<close>

text \<open>
  The branches \<open>propertyName === "slice"\<close> and \<open>propertyName === "substr"\<close>, for
  integer arguments, the second of which may be left out. The result is the new
  plain string, the Value Map and the input values of the new Origin.
\<close>

definition numberArgumentOrigins :: "int \<Rightarrow> int option \<Rightarrow> origin list" where
  "numberArgumentOrigins a b =
     otherArgumentOrigin (showInt a)
       # (case b of None \<Rightarrow> [] | Some n \<Rightarrow> [otherArgumentOrigin (showInt n)])"

definition sliceCall :: "tracked \<Rightarrow> int \<Rightarrow> int option \<Rightarrow> string \<times> valueMap \<times> origin list" where
  "sliceCall oldValue from to =
     (let inputValues = forigin oldValue # numberArgumentOrigins from to;
          oldString = fvalue oldValue;
          to' = (case to of
                   None \<Rightarrow> None
                 | Some e \<Rightarrow> if e < 0 then Some (int (length oldString) + e) else Some e);
          newVal = js_slice oldString from to';
          vm = appendString newVal (forigin oldValue) from []
      in (newVal, vm, inputValues))"

definition substrCall :: "tracked \<Rightarrow> int \<Rightarrow> int option \<Rightarrow> string \<times> valueMap \<times> origin list" where
  "substrCall oldValue start0 length0 =
     (let inputValues = forigin oldValue # numberArgumentOrigins start0 length0;
          oldString = fvalue oldValue;
          start = (if start0 < 0 then int (length oldString) + start0 else start0);
          len = (case length0 of
                   None \<Rightarrow> int (length oldString) - start
                 | Some l \<Rightarrow> l);
          newVal = js_substr oldString start (Some len);
          vm = appendString newVal (forigin oldValue) start []
      in (newVal, vm, inputValues))"

definition sliceHandler :: "tracked \<Rightarrow> int \<Rightarrow> int option \<Rightarrow> tracked" where
  "sliceHandler oldValue from to =
     (case sliceCall oldValue from to of
        (newVal, vm, inputValues) \<Rightarrow> trackResult ''slice'' newVal inputValues vm)"

definition substrHandler :: "tracked \<Rightarrow> int \<Rightarrow> int option \<Rightarrow> tracked" where
  "substrHandler oldValue start len =
     (case substrCall oldValue start len of
        (newVal, vm, inputValues) \<Rightarrow> trackResult ''substr'' newVal inputValues vm)"

subsection \<open>Regular expressions and the native \<open>replace\<close>\<close>

text \<open>
  The regular-expression engine belongs to the runtime and is not modelled: a
  regular expression is given by its source form (\<open>toString\<close>), its \<open>global\<close>
  flag, the successive matches a global scan of a string finds, and what the native
  \<open>split\<close> makes of a string with it. A match has the matched text, the captures
  (\<open>None\<close> for a group that took no part), the position and, when the regular
  expression has named groups, the groups object (the names with their captures).
\<close>

type_synonym groups = "(string \<times> string option) list"

record rmatch =
  m_text :: string
  m_captures :: "string option list"
  m_index :: nat
  m_groups :: "groups option"

record regexp =
  re_toString :: string
  re_global :: bool
  re_execAll :: "string \<Rightarrow> rmatch list"
  re_split :: "string \<Rightarrow> string list"

datatype pattern = PString strarg | PRegExp regexp

fun patternToString :: "pattern \<Rightarrow> string" where
  "patternToString (PString a) = argValue a"
| "patternToString (PRegExp r) = re_toString r"

fun patternOrigin :: "pattern \<Rightarrow> origin" where
  "patternOrigin (PString a) = stringArgumentOrigin a"
| "patternOrigin (PRegExp r) = otherArgumentOrigin (re_toString r)"

text \<open>
  What the engine guarantees of the matches it reports from position \<open>pos\<close> on:
  each lies within the string, its text is what the string has there, and the next
  one does not begin before it ends.
\<close>

fun wfMatches :: "string \<Rightarrow> nat \<Rightarrow> rmatch list \<Rightarrow> bool" where
  "wfMatches S pos [] = True"
| "wfMatches S pos (m # ms) =
     (pos \<le> m_index m \<and> m_index m + length (m_text m) \<le> length S
      \<and> take (length (m_text m)) (drop (m_index m) S) = m_text m
      \<and> wfMatches S (m_index m + length (m_text m)) ms)"

text \<open>
  The matches the native \<open>replace\<close> works through: the first occurrence of a string
  pattern; every match of a global regular expression, the first match of another.
\<close>

fun nativeMatches :: "string \<Rightarrow> pattern \<Rightarrow> rmatch list" where
  "nativeMatches S (PString a) =
     (case indexOfFrom (argValue a) S 0 of
        None \<Rightarrow> []
      | Some i \<Rightarrow>
          [\<lparr> m_text = argValue a, m_captures = [], m_index = i, m_groups = None \<rparr>])"
| "nativeMatches S (PRegExp r) =
     (if re_global r then re_execAll r S else take 1 (re_execAll r S))"

text \<open>
  A value among the arguments of a replacement function: \<open>undefined\<close>, a
  number (a position), a plain string, a tracked string, or the groups object.
  The runtime calls the function with the matched text, the captures, the position
  and the whole string, and with the groups object after them when there is one.
\<close>

datatype cbarg = CUndefined | CNumber nat | CString string | CTracked tracked | CGroups groups

definition captureArgument :: "string option \<Rightarrow> cbarg" where
  "captureArgument c = (case c of None \<Rightarrow> CUndefined | Some s \<Rightarrow> CString s)"

definition replacerArguments :: "rmatch \<Rightarrow> nat \<Rightarrow> string \<Rightarrow> cbarg list" where
  "replacerArguments m position S =
     CString (m_text m) # map captureArgument (m_captures m)
       @ [CNumber position, CString S]
       @ (case m_groups m of None \<Rightarrow> [] | Some g \<Rightarrow> [CGroups g])"

text \<open>
  The native \<open>replace\<close> with a replacement function, after ECMAScript: for each
  match the function is called (it may change the state \<open>st\<close> it closes over, and
  it may throw); the text since the last match and the function's result are added
  to the output when the match does not begin before the last one ended; what is
  left of the string follows the last match.
\<close>

fun nativeReplaceLoop ::
  "string \<Rightarrow> ('s \<Rightarrow> cbarg list \<Rightarrow> error + string \<times> 's) \<Rightarrow> rmatch list \<Rightarrow> string \<Rightarrow> nat \<Rightarrow> 's
     \<Rightarrow> error + string \<times> 's" where
  "nativeReplaceLoop S cb [] accumulatedResult nextSourcePosition st =
     Inr (accumulatedResult @ drop nextSourcePosition S, st)"
| "nativeReplaceLoop S cb (m # ms) accumulatedResult nextSourcePosition st =
     (let position = min (m_index m) (length S) in
      case cb st (replacerArguments m position S) of
        Inl e \<Rightarrow> Inl e
      | Inr (replacement, st') \<Rightarrow>
          if nextSourcePosition \<le> position
          then nativeReplaceLoop S cb ms
                 (accumulatedResult
                    @ take (position - nextSourcePosition) (drop nextSourcePosition S)
                    @ replacement)
                 (position + length (m_text m)) st'
          else nativeReplaceLoop S cb ms accumulatedResult nextSourcePosition st')"

definition nativeReplace ::
  "string \<Rightarrow> pattern \<Rightarrow> ('s \<Rightarrow> cbarg list \<Rightarrow> error + string \<times> 's) \<Rightarrow> 's
     \<Rightarrow> error + string \<times> 's" where
  "nativeReplace S pat cb st = nativeReplaceLoop S cb (nativeMatches S pat) [] 0 st"

subsection \<open>What the runtime does with the values the \<open>replace\<close> callback reads\<close>

text \<open>
  The callback reads its arguments by position, and what it finds at a position
  depends on the call. \<open>xs[i]\<close> is \<open>undefined\<close> outside the array;
  \<open>xs.slice(start, end)\<close> counts a negative index from the end.
\<close>

definition arrayAt :: "cbarg list \<Rightarrow> int \<Rightarrow> cbarg" where
  "arrayAt xs i = (if 0 \<le> i \<and> i < int (length xs) then xs ! nat i else CUndefined)"

definition arraySlice :: "cbarg list \<Rightarrow> int \<Rightarrow> int \<Rightarrow> cbarg list" where
  "arraySlice xs start end =
     (let len = int (length xs);
          from = (if start < 0 then max (len + start) 0 else min start len);
          to = (if end < 0 then max (len + end) 0 else min end len)
      in take (nat (max (to - from) 0)) (drop (nat from) xs))"

text \<open>
  The two parts of the runtime that are parameters: \<open>execEmptyLength\<close> is the
  length of the match of the empty string for the source text of a regular
  expression (\<open>None\<close> when the text is none and the constructor throws);
  \<open>numericReading\<close> is the integer the runtime reads a string as where a position
  is expected (the conversion to a number, in floating point, cut to an integer).
  A string without a digit and without the letter \<open>I\<close> is no number and none
  of the forms of infinity: it is empty or reads as \<open>NaN\<close>, and both are 0 as an
  integer.
\<close>

datatype jsinteger = Finite int | PlusInfinity | MinusInfinity

record runtime =
  execEmptyLength :: "string \<Rightarrow> nat option"
  numericReading :: "string \<Rightarrow> jsinteger"

definition stringToInteger :: "runtime \<Rightarrow> string \<Rightarrow> jsinteger" where
  "stringToInteger rt s =
     (if list_ex (\<lambda>c. isDigit c \<or> c = CHR ''I'') s then numericReading rt s else Finite 0)"

text \<open>
  The conversion of a value to a string (the groups object has no prototype and
  cannot be converted); \<open>match.indexOf(submatch)\<close>, a method of strings only;
  \<open>offset + n\<close>, a sum of numbers or, from a string on the left, the string
  followed by the number in decimal; and the end position \<open>substring\<close> reads its
  second argument as (\<open>None\<close>: the end of the string).
\<close>

fun toStringArg :: "cbarg \<Rightarrow> error + string" where
  "toStringArg CUndefined = Inr ''undefined''"
| "toStringArg (CNumber n) = Inr (showNat n)"
| "toStringArg (CString s) = Inr s"
| "toStringArg (CTracked t) = Inr (fvalue t)"
| "toStringArg (CGroups g) = Inl TypeError"

fun indexOfArg :: "cbarg \<Rightarrow> string \<Rightarrow> error + int" where
  "indexOfArg (CString s) sub = Inr (js_indexOf s sub)"
| "indexOfArg (CTracked t) sub = Inr (js_indexOf (fvalue t) sub)"
| "indexOfArg CUndefined sub = Inl TypeError"
| "indexOfArg (CNumber n) sub = Inl TypeError"
| "indexOfArg (CGroups g) sub = Inl TypeError"

fun plusNumber :: "cbarg \<Rightarrow> int \<Rightarrow> error + indexValue" where
  "plusNumber (CNumber p) n = Inr (IndexNumber (int p + n))"
| "plusNumber (CString s) n = Inr (IndexText (s @ showInt n))"
| "plusNumber (CTracked t) n = Inr (IndexText (fvalue t @ showInt n))"
| "plusNumber CUndefined n = Inr IndexNaN"
| "plusNumber (CGroups g) n = Inl TypeError"

fun integerEnd :: "jsinteger \<Rightarrow> nat option" where
  "integerEnd (Finite i) = Some (nat i)"
| "integerEnd PlusInfinity = None"
| "integerEnd MinusInfinity = Some 0"

fun substringEnd :: "runtime \<Rightarrow> cbarg \<Rightarrow> error + nat option" where
  "substringEnd rt CUndefined = Inr None"
| "substringEnd rt (CNumber p) = Inr (Some p)"
| "substringEnd rt (CString s) = Inr (integerEnd (stringToInteger rt s))"
| "substringEnd rt (CTracked t) = Inr (integerEnd (stringToInteger rt (fvalue t)))"
| "substringEnd rt (CGroups g) = Inl TypeError"

text \<open>\<open>xs.map(f)\<close> for a function that may throw.\<close>

fun mapResult :: "('a \<Rightarrow> error + 'b) \<Rightarrow> 'a list \<Rightarrow> error + 'b list" where
  "mapResult f [] = Inr []"
| "mapResult f (x # xs) =
     (case f x of
        Inl e \<Rightarrow> Inl e
      | Inr y \<Rightarrow>
          (case mapResult f xs of
             Inl e \<Rightarrow> Inl e
           | Inr ys \<Rightarrow> Inr (y # ys)))"

subsection \<open>The \<open>replace\<close> handler\<close>

text \<open>
  \<open>value.replace(/\$([0-9]{1,2}|[$`&'])/g, ...)\<close> on the replacement text: a dollar
  sign followed by two digits, by one digit or by one of the four characters is a
  token, handed to the function; every other character stays.
\<close>

definition isDollarSpecial :: "char \<Rightarrow> bool" where
  "isDollarSpecial c = (c = CHR ''$'' \<or> c = CHR 0x60 \<or> c = CHR ''&'' \<or> c = CHR 0x27)"

fun dollarToken :: "string \<Rightarrow> (string \<times> string) option" where
  "dollarToken (c # d # rest) =
     (if isDigit c \<and> isDigit d then Some ([c, d], rest)
      else if isDigit c \<or> isDollarSpecial c then Some ([c], d # rest)
      else None)"
| "dollarToken [c] = (if isDigit c \<or> isDollarSpecial c then Some ([c], []) else None)"
| "dollarToken [] = None"

function dollarReplace :: "(string \<Rightarrow> error + string) \<Rightarrow> string \<Rightarrow> error + string" where
  "dollarReplace f [] = Inr []"
| "dollarReplace f (c # cs) =
     (case (if c = CHR ''$'' then dollarToken cs else None) of
        Some (tok, rest) \<Rightarrow>
          (case f tok of
             Inl e \<Rightarrow> Inl e
           | Inr r \<Rightarrow>
               (case dollarReplace f rest of
                  Inl e \<Rightarrow> Inl e
                | Inr out \<Rightarrow> Inr (r @ out)))
      | None \<Rightarrow>
          (case dollarReplace f cs of
             Inl e \<Rightarrow> Inl e
           | Inr out \<Rightarrow> Inr (c # out)))"
  by pat_completeness auto
termination
proof (relation "measure (\<lambda>(f, s). length s)")
  have shorter: "length rest < length cs" if "dollarToken cs = Some (tok, rest)"
    for cs tok rest
    using that by (induction cs rule: dollarToken.induct) (auto split: if_splits)
  fix f :: "string \<Rightarrow> error + string" and c cs x2 x y xa
  assume "(if c = CHR ''$'' then dollarToken cs else None) = Some x2" and "(x, y) = x2"
  then have "dollarToken cs = Some (x, y)" by (auto split: if_splits)
  then show "((f, y), f, c # cs) \<in> measure (\<lambda>(f, s). length s)"
    using shorter by fastforce
qed auto

text \<open>
  \<open>countGroupsInRegExp\<close>: \<open>new RegExp(re.toString() + '|').exec('').length\<close>, the
  runtime's part being \<open>execEmptyLength\<close>.
\<close>

definition countGroupsInRegExp :: "runtime \<Rightarrow> pattern \<Rightarrow> error + nat" where
  "countGroupsInRegExp rt re =
     (case execEmptyLength rt (patternToString re @ ''|'') of
        None \<Rightarrow> Inl SyntaxError
      | Some n \<Rightarrow> Inr n)"

text \<open>
  The function handed to the inner \<open>replace\<close>: \<open>submatches[submatchIndex - 1]\<close>
  when it is not \<open>undefined\<close>, and the match for \<open>$&\<close>; what it returns is made a
  string by the native \<open>replace\<close>.
\<close>

definition dollarCallback ::
  "runtime \<Rightarrow> pattern \<Rightarrow> cbarg list \<Rightarrow> cbarg \<Rightarrow> string \<Rightarrow> error + string" where
  "dollarCallback rt pat submatches match dollarSubmatch =
     (if list_all isDigit dollarSubmatch then
        (let submatchIndex = foldl (\<lambda>a c. 10 * a + digitVal c) 0 dollarSubmatch in
         case arrayAt submatches (int submatchIndex - 1) of
           CUndefined \<Rightarrow>
             (case countGroupsInRegExp rt pat of
                Inl e \<Rightarrow> Inl e
              | Inr maxSubmatchIndex \<Rightarrow>
                  if submatchIndex < maxSubmatchIndex then Inr []
                  else Inr (''$'' @ dollarSubmatch))
         | submatch \<Rightarrow> toStringArg submatch)
      else if dollarSubmatch = ''&'' then toStringArg match
      else Inl (Thrown ''not handled!!''))"

text \<open>
  The second argument of \<open>replace\<close>: a string; a number, given by the string the
  runtime prints it as (\<open>args[1].toString()\<close>); a function, with its source text,
  from which its origin is made; or anything else, with its string form. A
  replacement function is called with the array the callback puts together and
  returns \<open>undefined\<close>, \<open>null\<close>, a plain string or a tracked string.
\<close>

datatype cbresult = RUndefined | RNull | RString string | RTracked tracked

datatype replacement =
  RepString strarg
| RepNumber string
| RepFunction string "cbarg list \<Rightarrow> cbresult"
| RepOther string

fun replacementOrigin :: "replacement \<Rightarrow> origin" where
  "replacementOrigin (RepString a) = stringArgumentOrigin a"
| "replacementOrigin (RepNumber str) = otherArgumentOrigin str"
| "replacementOrigin (RepFunction src f) = otherArgumentOrigin src"
| "replacementOrigin (RepOther str) = otherArgumentOrigin str"

text \<open>
  A submatch that is a string becomes a tracked string of its own; any other is
  left as it is. Its Origin is built with \<open>inputValues: [oldValue]\<close>, the tracked
  string itself, which is recorded here by its origin, and with the character
  index \<open>offset + match.indexOf(submatch)\<close>.
\<close>

definition wrapSubmatch :: "tracked \<Rightarrow> cbarg \<Rightarrow> cbarg \<Rightarrow> cbarg \<Rightarrow> error + cbarg" where
  "wrapSubmatch oldValue offset match submatch =
     (case submatch of
        CString sub \<Rightarrow>
          (case indexOfArg match sub of
             Inl e \<Rightarrow> Inl e
           | Inr n \<Rightarrow>
               (case plusNumber offset n of
                  Inl e \<Rightarrow> Inl e
                | Inr characterIndex \<Rightarrow>
                    Inr (CTracked (FromJS sub
                      (Origin (Some ''Replace Call Submatch'') sub [forigin oldValue]
                         [characterIndex] None)))))
      | other \<Rightarrow> Inr other)"

definition untrackedResult :: "string \<Rightarrow> string \<times> origin" where
  "untrackedResult v = (v, Origin (Some ''Untracked replace match result'') v [] [] None)"

definition replaceWith ::
  "runtime \<Rightarrow> pattern \<Rightarrow> replacement \<Rightarrow> origin list
     \<Rightarrow> cbarg \<Rightarrow> cbarg list \<Rightarrow> cbarg \<Rightarrow> cbarg \<Rightarrow> error + string \<times> origin" where
  "replaceWith rt pat rep inputValues match submatches offset string =
     (case rep of
        RepString a \<Rightarrow>
          (case dollarReplace (dollarCallback rt pat submatches match) (argValue a) of
             Inl e \<Rightarrow> Inl e
           | Inr v \<Rightarrow> Inr (v, inputValues ! 2))
      | RepNumber str \<Rightarrow>
          (case dollarReplace (dollarCallback rt pat submatches match) str of
             Inl e \<Rightarrow> Inl e
           | Inr v \<Rightarrow> Inr (v, inputValues ! 2))
      | RepFunction src f \<Rightarrow>
          (case f (match # submatches @ [offset, string]) of
             RUndefined \<Rightarrow> Inr (untrackedResult ''undefined'')
           | RNull \<Rightarrow> Inr (untrackedResult ''null'')
           | RString s \<Rightarrow> Inr (untrackedResult s)
           | RTracked t \<Rightarrow> Inr (fvalue t, forigin t))
      | RepOther str \<Rightarrow> Inl (Thrown ''not handled''))"

record rstate =
  valueMap :: valueMap
  inputMappedSoFar :: string

text \<open>
  The function the handler hands to the native \<open>replace\<close>. It takes the match
  from the front of its arguments and the offset and the string from the end:
  \<open>offset = argumentsArray[argumentsArray.length - 2]\<close>, the submatches being
  \<open>argumentsArray.slice(1, argumentsArray.length - 2)\<close>.
\<close>

definition replaceCallback ::
  "runtime \<Rightarrow> tracked \<Rightarrow> pattern \<Rightarrow> replacement \<Rightarrow> origin list
     \<Rightarrow> rstate \<Rightarrow> cbarg list \<Rightarrow> error + string \<times> rstate" where
  "replaceCallback rt oldValue pat rep inputValues st argumentsArray =
     (let oldString = fvalue oldValue;
          match = arrayAt argumentsArray 0;
          offset = arrayAt argumentsArray (int (length argumentsArray) - 2);
          string = arrayAt argumentsArray (int (length argumentsArray) - 1)
      in case mapResult (wrapSubmatch oldValue offset match)
                (arraySlice argumentsArray 1 (int (length argumentsArray) - 2)) of
           Inl e \<Rightarrow> Inl e
         | Inr submatches \<Rightarrow>
             (case substringEnd rt offset of
                Inl e \<Rightarrow> Inl e
              | Inr end \<Rightarrow>
                  (let inputBeforeToKeep =
                         js_substring oldString (length (inputMappedSoFar st)) end;
                       vm1 = appendString inputBeforeToKeep (forigin oldValue)
                               (int (length (inputMappedSoFar st))) (valueMap st);
                       mapped1 = inputMappedSoFar st @ inputBeforeToKeep
                   in case replaceWith rt pat rep inputValues match submatches offset string of
                        Inl e \<Rightarrow> Inl e
                      | Inr (v, org) \<Rightarrow>
                          (case toStringArg match of
                             Inl e \<Rightarrow> Inl e
                           | Inr matchText \<Rightarrow>
                               Inr (v, \<lparr> valueMap = appendString v org 0 vm1,
                                         inputMappedSoFar = mapped1 @ matchText \<rparr>)))))"

definition replaceCall ::
  "runtime \<Rightarrow> tracked \<Rightarrow> pattern \<Rightarrow> replacement
     \<Rightarrow> error + string \<times> valueMap \<times> origin list" where
  "replaceCall rt oldValue pat rep =
     (let inputValues = [forigin oldValue, patternOrigin pat, replacementOrigin rep];
          oldString = fvalue oldValue
      in case nativeReplace oldString pat
                (replaceCallback rt oldValue pat rep inputValues)
                \<lparr> valueMap = [], inputMappedSoFar = [] \<rparr> of
           Inl e \<Rightarrow> Inl e
         | Inr (newVal, st) \<Rightarrow>
             Inr (newVal,
                  appendString (js_substring oldString (length (inputMappedSoFar st)) None)
                    (forigin oldValue) (int (length (inputMappedSoFar st))) (valueMap st),
                  inputValues))"

definition replaceHandler ::
  "runtime \<Rightarrow> tracked \<Rightarrow> pattern \<Rightarrow> replacement \<Rightarrow> error + tracked" where
  "replaceHandler rt oldValue pat rep =
     (case replaceCall rt oldValue pat rep of
        Inl e \<Rightarrow> Inl e
      | Inr (newVal, vm, inputValues) \<Rightarrow> Inr (trackResult ''replace'' newVal inputValues vm))"

subsection \<open>Conditions on the inputs of \<open>replace\<close>\<close>

text \<open>
  The engine is sound for a pattern on a string when the matches it reports for a
  regular expression are well formed; the first occurrence of a string pattern
  always is.
\<close>

fun engineSound :: "pattern \<Rightarrow> string \<Rightarrow> bool" where
  "engineSound (PString a) S = True"
| "engineSound (PRegExp r) S = wfMatches S 0 (re_execAll r S)"

text \<open>
  A pattern for which the runtime passes no groups object: a string, or a regular
  expression without named groups.
\<close>

fun withoutGroupsObject :: "pattern \<Rightarrow> string \<Rightarrow> bool" where
  "withoutGroupsObject (PString a) S = True"
| "withoutGroupsObject (PRegExp r) S = list_all (\<lambda>m. m_groups m = None) (re_execAll r S)"




subsection \<open>Regular expressions for one character\<close>

text \<open>
  What the runtime computes for the regular expression \<open>/x/\<close> or \<open>/x/g\<close>, \<open>x\<close> a
  character without a special meaning: the occurrences of \<open>x\<close> from left to right,
  and the pieces between them.
\<close>

fun charScan :: "char \<Rightarrow> string \<Rightarrow> nat \<Rightarrow> rmatch list" where
  "charScan x [] i = []"
| "charScan x (c # cs) i =
     (if c = x
      then \<lparr> m_text = [x], m_captures = [], m_index = i, m_groups = None \<rparr>
             # charScan x cs (Suc i)
      else charScan x cs (Suc i))"

fun charSplit :: "char \<Rightarrow> string \<Rightarrow> string \<Rightarrow> string list" where
  "charSplit x cur [] = [cur]"
| "charSplit x cur (c # cs) =
     (if c = x then cur # charSplit x [] cs else charSplit x (cur @ [c]) cs)"

definition charRegExp :: "char \<Rightarrow> bool \<Rightarrow> regexp" where
  "charRegExp x global =
     \<lparr> re_toString = ''/'' @ [x] @ ''/'' @ (if global then ''g'' else []),
       re_global = global,
       re_execAll = (\<lambda>S. charScan x S 0),
       re_split = (\<lambda>S. charSplit x [] S) \<rparr>"

text \<open>
  The same with the character in a named group, \<open>/(?<name>x)/\<close>: every match has
  the character as its one capture and comes with a groups object, and the native
  \<open>split\<close> puts the capture between the pieces.
\<close>

fun charSplitCaptured :: "char \<Rightarrow> string \<Rightarrow> string \<Rightarrow> string list" where
  "charSplitCaptured x cur [] = [cur]"
| "charSplitCaptured x cur (c # cs) =
     (if c = x then cur # [x] # charSplitCaptured x [] cs
      else charSplitCaptured x (cur @ [c]) cs)"

definition namedCharRegExp :: "char \<Rightarrow> string \<Rightarrow> bool \<Rightarrow> regexp" where
  "namedCharRegExp x name global =
     \<lparr> re_toString = ''/(?<'' @ name @ ''>'' @ [x] @ '')/'' @ (if global then ''g'' else []),
       re_global = global,
       re_execAll =
         (\<lambda>S. map (\<lambda>m. m \<lparr> m_captures := [Some [x]], m_groups := Some [(name, Some [x])] \<rparr>)
                (charScan x S 0)),
       re_split = (\<lambda>S. charSplitCaptured x [] S) \<rparr>"

subsection \<open>The \<open>split\<close> handler\<close>

text \<open>
  The native \<open>split\<close> with a string separator, after ECMAScript: the pieces between
  the occurrences of the separator, found from left to right; with the empty
  separator, the code units one by one.
\<close>

function splitOn :: "string \<Rightarrow> string \<Rightarrow> string \<Rightarrow> string list" where
  "splitOn sep cur [] = [cur]"
| "splitOn sep cur (c # cs) =
     (if sep \<noteq> [] \<and> take (length sep) (c # cs) = sep
      then cur # splitOn sep [] (drop (length sep) (c # cs))
      else splitOn sep (cur @ [c]) cs)"
  by pat_completeness auto
termination
  by (relation "measure (\<lambda>(sep, cur, s). length s)") auto

definition js_split :: "string \<Rightarrow> string \<Rightarrow> string list" where
  "js_split S sep = (if sep = [] then map (\<lambda>c. [c]) S else splitOn sep [] S)"

text \<open>
  The first argument of \<open>split\<close>: a string, a regular expression, nothing, or any
  other value (given by its string form, which is what the native \<open>split\<close> takes
  as the separator).
\<close>

datatype separator = SepString strarg | SepRegExp regexp | SepUndefined | SepOther string

fun nativeSplit :: "string \<Rightarrow> separator \<Rightarrow> string list" where
  "nativeSplit S (SepString a) = js_split S (argValue a)"
| "nativeSplit S (SepRegExp r) = re_split r S"
| "nativeSplit S SepUndefined = [S]"
| "nativeSplit S (SepOther str) = js_split S str"

fun separatorOrigins :: "separator \<Rightarrow> origin list" where
  "separatorOrigins (SepString a) = [stringArgumentOrigin a]"
| "separatorOrigins (SepRegExp r) = [otherArgumentOrigin (re_toString r)]"
| "separatorOrigins SepUndefined = []"
| "separatorOrigins (SepOther str) = [otherArgumentOrigin str]"

text \<open>
  \<open>oldString.match(regExp)\<close> for the global copy of the separator: the texts of all
  matches, \<open>null\<close> (\<open>None\<close>) when there is none.
\<close>

definition matchGlobal :: "regexp \<Rightarrow> string \<Rightarrow> string list option" where
  "matchGlobal r S =
     (case map m_text (re_execAll r S) of
        [] \<Rightarrow> None
      | ms \<Rightarrow> Some ms)"

text \<open>
  \<open>res.forEach(function(str, i) {...})\<close>: the fragment's Origin records
  \<open>currentCharIndex\<close>, which then moves past the fragment and past
  \<open>separators[i]\<close> when there is one. Reading \<open>separators[i]\<close> throws when
  \<open>separators\<close> is \<open>null\<close>.
\<close>

fun forEachFragment ::
  "origin list \<Rightarrow> string list option \<Rightarrow> string list \<Rightarrow> nat \<Rightarrow> nat \<Rightarrow> error + tracked list" where
  "forEachFragment inputValues separators [] i currentCharIndex = Inr []"
| "forEachFragment inputValues separators (str # res) i currentCharIndex =
     (case separators of
        None \<Rightarrow> Inl TypeError
      | Some seps \<Rightarrow>
          (let inputValuesCharacterIndex = [IndexNumber (int currentCharIndex)];
               currentCharIndex' =
                 currentCharIndex + length str
                   + (if i < length seps then length (seps ! i) else 0)
           in case forEachFragment inputValues separators res (Suc i) currentCharIndex' of
                Inl e \<Rightarrow> Inl e
              | Inr newVal \<Rightarrow>
                  Inr (FromJS str
                         (Origin (Some ''Split Call'') str inputValues
                            inputValuesCharacterIndex None)
                       # newVal)))"

text \<open>
  The branch \<open>propertyName === "split"\<close>. With a limit the call is not tracked: the
  native result is wrapped piece by piece at the end of \<open>handlerFunction\<close>.
  Without one, \<open>separators\<close> is as many copies of a string separator as there are
  gaps, the global matches of a regular expression, and the empty array otherwise
  (\<open>dontTrack()\<close> is called, and \<open>newVal\<close> is then set to \<open>[]\<close> and filled all the
  same).
\<close>

definition splitCall :: "tracked \<Rightarrow> separator \<Rightarrow> nat option \<Rightarrow> error + tracked list" where
  "splitCall oldValue separator limit =
     (let oldString = fvalue oldValue in
      case limit of
        Some l \<Rightarrow>
          (let inputValues =
                 forigin oldValue # separatorOrigins separator
                   @ [otherArgumentOrigin (showNat l)]
           in Inr (map (\<lambda>val. FromJS val
                          (Origin (Some (actionName ''split'')) val inputValues [] None))
                     (take l (nativeSplit oldString separator))))
      | None \<Rightarrow>
          (let inputValues = forigin oldValue # separatorOrigins separator;
               res = nativeSplit oldString separator;
               separators =
                 (case separator of
                    SepString a \<Rightarrow> Some (replicate (length res - 1) (argValue a))
                  | SepRegExp r \<Rightarrow> matchGlobal r oldString
                  | SepUndefined \<Rightarrow> Some []
                  | SepOther str \<Rightarrow> Some [])
           in forEachFragment inputValues separators res 0 0))"

text \<open>
  Fragments that stand in \<open>S\<close> where their Origins say, one after the other from
  \<open>pos\<close> on with \<open>sepLen\<close> code units skipped between two of them.
\<close>

fun wellLocated :: "string \<Rightarrow> nat \<Rightarrow> nat \<Rightarrow> tracked list \<Rightarrow> bool" where
  "wellLocated S sepLen pos [] = True"
| "wellLocated S sepLen pos (t # ts) =
     (o_inputValuesCharacterIndex (forigin t) = [IndexNumber (int pos)]
      \<and> take (length (fvalue t)) (drop pos S) = fvalue t
      \<and> pos + length (fvalue t) \<le> length S
      \<and> wellLocated S sepLen (pos + length (fvalue t) + sepLen) ts)"

text \<open>\<open>Array.prototype.join\<close>: the pieces with the separator between them.\<close>

fun joinWith :: "string \<Rightarrow> string list \<Rightarrow> string" where
  "joinWith sep [] = []"
| "joinWith sep [x] = x"
| "joinWith sep (x # y # ys) = x @ sep @ joinWith sep (y # ys)"

section \<open>Theorems\<close>

subsection \<open>Tracing on and off\<close>

lemma enableTracing_idem: "enableTracing (enableTracing st) = enableTracing st"
  by (simp add: enableTracing_def)

lemma enableTracing_enabled_noop: "tracingEnabled st \<Longrightarrow> enableTracing st = st"
  by (simp add: enableTracing_def)

lemma disableTracing_restores_nine:
  "env (disableTracing (enableTracing (loadModule e))) =
     e \<lparr> removeAttribute := Traced ''removeAttribute'' (removeAttribute e) \<rparr>"
  by (simp add: disableTracing_def enableTracing_def loadModule_def)

text \<open>
  C9. After \<open>enableTracing\<close> followed by \<open>disableTracing\<close> the slot of
  \<open>removeAttribute\<close> still holds the tracing wrapper, not the original; switching
  tracing on and off a second time wraps the wrapper again.
\<close>

theorem removeAttribute_not_restored:
  "removeAttribute (env (disableTracing (enableTracing (loadModule nativeBrowser))))
     = Traced ''removeAttribute'' (Native ''removeAttribute'')
   \<and> removeAttribute (env (disableTracing (enableTracing (loadModule nativeBrowser))))
     \<noteq> removeAttribute nativeBrowser
   \<and> removeAttribute (env (disableTracing (enableTracing
        (disableTracing (enableTracing (loadModule nativeBrowser))))))
     = Traced ''removeAttribute'' (Traced ''removeAttribute'' (Native ''removeAttribute''))"
  by (simp add: disableTracing_def enableTracing_def loadModule_def nativeBrowser_def)

subsection \<open>Bounded polling for a record that is not there\<close>

declare tryTraverse.simps [simp del]

lemma tryTraverse_absent_from:
  assumes "\<And>n. \<not> hasLog n" and "p \<le> 9"
  shows "tryTraverse hasLog p =
           (replicate (9 - p) 250,
            ErrorResponse 500 ''Log not found - might still be saving data'')"
  using assms(2)
proof (induction "9 - p" arbitrary: p)
  case 0
  then have p: "p = 9" by simp
  show ?case unfolding p
    by (subst tryTraverse.simps) (simp add: assms(1))
next
  case (Suc k)
  then have le: "p + 1 \<le> 9" and k: "k = 9 - (p + 1)" by simp_all
  have rec: "tryTraverse hasLog (p + 1) =
      (replicate (9 - (p + 1)) 250,
       ErrorResponse 500 ''Log not found - might still be saving data'')"
    using Suc.hyps(1) [OF k le] .
  have small: "\<not> 250 * p > 2000" using le by simp
  have rep: "replicate (9 - p) (250::nat) = 250 # replicate (9 - (p + 1)) 250"
    using Suc.hyps(2) by (metis k replicate_Suc)
  show ?case
    by (subst tryTraverse.simps) (simp only: assms(1) small rec rep Let_def if_False prod.case)
qed

lemma tryTraverse_waits_bounded:
  "p \<le> 9 \<Longrightarrow> sum_list (fst (tryTraverse hasLog p)) \<le> 250 * (9 - p)"
proof (induction "9 - p" arbitrary: p)
  case 0
  then have p: "p = 9" by simp
  show ?case unfolding p by (subst tryTraverse.simps) simp
next
  case (Suc k)
  then have le: "p + 1 \<le> 9" and k: "k = 9 - (p + 1)" by simp_all
  have rec: "sum_list (fst (tryTraverse hasLog (p + 1))) \<le> 250 * (9 - (p + 1))"
    using Suc.hyps(1) [OF k le] .
  obtain ws r where wr: "tryTraverse hasLog (p + 1) = (ws, r)" by (cases "tryTraverse hasLog (p + 1)")
  have "250 + sum_list ws \<le> 250 * (9 - p)" using rec le wr by simp
  moreover have "tryTraverse hasLog (Suc p) = (ws, r)" using wr by simp
  ultimately show ?case
    by (subst tryTraverse.simps) (simp add: Let_def)
qed

text \<open>
  C6. When the record never becomes visible, the \<open>/traverse\<close> handler checks ten
  times, waits 250 ms nine times (2250 ms, the first total above 2000) and answers
  with status 500 and an error body; whatever the store answers, the handler waits
  at most 2250 ms in all. The \<open>/loadLog\<close> handler reads the store once: when that
  read finds nothing, nothing is what it answers, whatever a later read would find.
\<close>

theorem traverse_poll_bounded:
  "((\<forall>n. \<not> hasLog n) \<longrightarrow>
      traverseHandler hasLog tr =
        (replicate 9 250,
         \<lparr> statusCode = 500,
           sent = Some (500, JErr ''Log not found - might still be saving data'') \<rparr>))
   \<and> sum_list (fst (traverseHandler hasLog tr)) \<le> 2250
   \<and> (loadLog 0 = None \<longrightarrow> loadLogHandler loadLog = ([500], None))"
proof (intro conjI impI)
  assume "\<forall>n. \<not> hasLog n"
  then have "tryTraverse hasLog 0 =
      (replicate 9 250, ErrorResponse 500 ''Log not found - might still be saving data'')"
    using tryTraverse_absent_from [of hasLog 0] by simp
  then show "traverseHandler hasLog tr =
        (replicate 9 250,
         \<lparr> statusCode = 500,
           sent = Some (500, JErr ''Log not found - might still be saving data'') \<rparr>)"
    by (simp add: traverseHandler_def res_end_def res_status_def newResponse_def)
next
  have "sum_list (fst (tryTraverse hasLog 0)) \<le> 2250"
    using tryTraverse_waits_bounded [of 0 hasLog] by simp
  then show "sum_list (fst (traverseHandler hasLog tr)) \<le> 2250"
    by (auto simp add: traverseHandler_def split: prod.splits poll_end.splits)
next
  assume "loadLog 0 = None"
  then show "loadLogHandler loadLog = ([500], None)"
    by (simp add: loadLogHandler_def)
qed

theorem traverse_poll_bounded_witness:
  "traverseHandler (\<lambda>n. False) (Fulfilled [1::nat]) =
     (replicate 9 250,
      \<lparr> statusCode = 500,
        sent = Some (500, JErr ''Log not found - might still be saving data'') \<rparr>)
   \<and> sum_list (fst (traverseHandler (\<lambda>n. False) (Fulfilled [1::nat]))) \<le> 2250
   \<and> loadLogHandler (\<lambda>n. if n = 0 then None else Some (7::nat)) = ([500], None)"
proof -
  have never: "\<forall>n::nat. \<not> False" and absent: "(if (0::nat) = 0 then None else Some (7::nat)) = None"
    by simp_all
  show ?thesis
    using never absent traverse_poll_bounded
      [of "\<lambda>n. False" "Fulfilled [1::nat]" "\<lambda>n. if n = 0 then None else Some (7::nat)"]
    by blast
qed

subsection \<open>What the traversal endpoint answers when the walk fails\<close>

text \<open>
  C7 as stated (the response carries the steps resolved so far beside the error
  marker) fails: with one step resolved before the missing record, the body that is
  sent has no \<open>steps\<close>.
\<close>

theorem finishRequest_drops_partial_steps:
  "\<not> (\<exists>code b. sent (finishRequest (Rejected [1::nat]) newResponse) = Some (code, b)
          \<and> steps b = Some [1] \<and> err b \<noteq> None)"
  by (simp add: finishRequest_def res_end_def res_status_def newResponse_def JErr_def JSteps_def)

text \<open>
  C7, amended. A traversal that fails is answered with status 500 and a body that
  holds the error marker and no steps, whatever had been resolved; a traversal that
  succeeds is answered with status 200 and a body that holds the steps and no error
  marker. The two answers differ, so a failure is never taken for a walk that
  reached a root.
\<close>

theorem finishRequest_error_marker:
  "sent (finishRequest (Rejected partial) newResponse)
     = Some (500, \<lparr> err = Some ''Log not found in backend'', steps = None \<rparr>)
   \<and> sent (finishRequest (Fulfilled ss) newResponse)
     = Some (200, \<lparr> err = None, steps = Some ss \<rparr>)
   \<and> sent (finishRequest (Rejected partial) newResponse)
     \<noteq> sent (finishRequest (Fulfilled ss) newResponse)"
  by (simp add: finishRequest_def res_end_def res_status_def newResponse_def JErr_def JSteps_def)

subsection \<open>Tracked strings hold plain strings\<close>

lemma unwrapLoop_not_tracked: "unwrapLoop v = Inr v' \<Longrightarrow> v' \<noteq> VTracked t"
  by (induction v arbitrary: v' rule: unwrapLoop.induct) auto

lemma makeTraceObject_string:
  "makeTraceObject \<lparr> opt_value = VString s, opt_origin = Some org \<rparr>
     = Inr (VTracked (map_fromjs VString (FromJS s org)))"
  by (simp add: makeTraceObject_def FromJSString_def)

text \<open>
  C8. The constructor never stores a tracked string as the value of the object it
  builds: a tracked input is unwrapped, level by level, down to what it wraps, and
  a plain string is stored as it is. \<open>makeTraceObject\<close> builds an object only for
  a plain string, which becomes the object's value, and hands any other value back
  unchanged; so if every tracked string inside its input holds a plain string, so
  does every tracked string inside its result.
\<close>

theorem tracked_value_is_plain:
  "(FromJSString v org = Inr obj \<longrightarrow> (\<forall>t. fvalue obj \<noteq> VTracked t))
   \<and> FromJSString (VTracked (FromJS v org')) org = FromJSString v org
   \<and> FromJSString (VString s) org = Inr (FromJS (VString s) org)
   \<and> (typeof (opt_value opts) = ''string'' \<longrightarrow> makeTraceObject opts = Inr r \<longrightarrow>
        (\<exists>s' org'. opt_value opts = VString s' \<and> r = VTracked (FromJS (VString s') org')))
   \<and> (plainInside (opt_value opts) \<longrightarrow> makeTraceObject opts = Inr r \<longrightarrow> plainInside r)"
proof (intro conjI impI allI)
  fix t assume "FromJSString v org = Inr obj"
  then show "fvalue obj \<noteq> VTracked t"
    by (auto simp: FromJSString_def split: sum.splits dest: unwrapLoop_not_tracked)
next
  show "FromJSString (VTracked (FromJS v org')) org = FromJSString v org"
    by (simp add: FromJSString_def)
next
  show "FromJSString (VString s) org = Inr (FromJS (VString s) org)"
    by (simp add: FromJSString_def)
next
  assume ty: "typeof (opt_value opts) = ''string''" and mk: "makeTraceObject opts = Inr r"
  from ty obtain s' where s': "opt_value opts = VString s'"
    by (cases "opt_value opts") simp_all
  with mk show "\<exists>s' org'. opt_value opts = VString s' \<and> r = VTracked (FromJS (VString s') org')"
    by (auto simp: makeTraceObject_def FromJSString_def split: option.splits)
next
  assume pl: "plainInside (opt_value opts)" and mk: "makeTraceObject opts = Inr r"
  show "plainInside r"
  proof (cases "typeof (opt_value opts) = ''string''")
    case False
    with mk pl show ?thesis by (simp add: makeTraceObject_def)
  next
    case True
    then obtain s' where "opt_value opts = VString s'"
      by (cases "opt_value opts") simp_all
    with mk show ?thesis
      by (auto simp: makeTraceObject_def FromJSString_def split: option.splits)
  qed
qed

theorem tracked_value_is_plain_witness:
  "FromJSString (VTracked (FromJS (VTracked (FromJS (VString ''ab'') (Origin None ''ab'' [] [] None)))
        (Origin None ''ab'' [] [] None))) (Origin None ''ab'' [] [] None)
     = Inr (FromJS (VString ''ab'') (Origin None ''ab'' [] [] None))
   \<and> (\<forall>t. VString ''ab'' \<noteq> VTracked t)
   \<and> makeTraceObject \<lparr> opt_value = VString ''ab'', opt_origin = Some (Origin None ''ab'' [] [] None) \<rparr>
     = Inr (VTracked (FromJS (VString ''ab'') (Origin None ''ab'' [] [] None)))
   \<and> plainInside (VTracked (FromJS (VString ''ab'') (Origin None ''ab'' [] [] None)))"
  using tracked_value_is_plain
    [where v = "VTracked (FromJS (VTracked (FromJS (VString ''ab'') (Origin None ''ab'' [] [] None)))
        (Origin None ''ab'' [] [] None))"
      and org = "Origin None ''ab'' [] [] None"
      and obj = "FromJS (VString ''ab'') (Origin None ''ab'' [] [] None)"
      and s = "''ab''"
      and opts = "\<lparr> opt_value = VString ''ab'', opt_origin = Some (Origin None ''ab'' [] [] None) \<rparr>"
      and r = "VTracked (FromJS (VString ''ab'') (Origin None ''ab'' [] [] None))"]
  by (simp add: makeTraceObject_def FromJSString_def)

subsection \<open>Reading a tracked string through the proxy\<close>

lemma canonicalIndex_accepted:
  assumes "canonicalIndex name = Some i"
  shows "\<not> parseFloat_isNaN name"
proof -
  from assms obtain c cs where name: "name = c # cs" and dig: "isDigit c"
    by (cases name) (auto simp: canonicalIndex_def split: if_splits)
  have nows: "\<not> isWhiteSpace c" and nosign: "c \<noteq> CHR ''+''" "c \<noteq> CHR ''-''"
    using dig by (auto simp: isDigit_def isWhiteSpace_def)
  show ?thesis
    using dig nows nosign unfolding name parseFloat_isNaN_def
    by (cases cs) simp_all
qed

text \<open>
  C10. Through the proxy, \<open>toString\<close>, \<open>valueOf\<close> and \<open>toJSON\<close> are the three
  methods of the prototype and each returns the plain string the object holds;
  \<open>length\<close> is that string's length; and a name that is the decimal form of an
  index below the length reads the character at that index.
\<close>

theorem proxy_reads_plain_string:
  "proxyGet t (KString ''toString'') = PMethod ToString
   \<and> proxyGet t (KString ''valueOf'') = PMethod ValueOf
   \<and> proxyGet t (KString ''toJSON'') = PMethod ToJSON
   \<and> invokeMethod t ToString = PValue (VString (fvalue t))
   \<and> invokeMethod t ValueOf = PValue (VString (fvalue t))
   \<and> invokeMethod t ToJSON = PValue (VString (fvalue t))
   \<and> proxyGet t (KString ''length'') = PValue (VNumber (int (length (fvalue t))))
   \<and> (canonicalIndex name = Some i \<longrightarrow> i < length (fvalue t) \<longrightarrow>
        proxyGet t (KString name) = PValue (VString [fvalue t ! i]))"
proof -
  have nan: "parseFloat_isNaN ''toString''" "parseFloat_isNaN ''valueOf''"
    "parseFloat_isNaN ''toJSON''" "parseFloat_isNaN ''length''" "parseFloat_isNaN ''value''"
    by (simp_all add: parseFloat_isNaN_def isWhiteSpace_def isDigit_def)
  have idx: "proxyGet t (KString name) = PValue (VString [fvalue t ! i])"
    if "canonicalIndex name = Some i" "i < length (fvalue t)"
    using that canonicalIndex_accepted [OF that(1)]
    by (simp add: proxyGet_def stringIndex_def)
  show ?thesis
    using nan idx by (simp add: proxyGet_def objectGet_def invokeMethod_def)
qed

theorem proxy_reads_plain_string_witness:
  "invokeMethod (FromJS ''abc'' (Origin None ''abc'' [] [] None)) ToString = PValue (VString ''abc'')
   \<and> proxyGet (FromJS ''abc'' (Origin None ''abc'' [] [] None)) (KString ''length'')
       = PValue (VNumber 3)
   \<and> canonicalIndex ''1'' = Some 1
   \<and> proxyGet (FromJS ''abc'' (Origin None ''abc'' [] [] None)) (KString ''1'')
       = PValue (VString ''b'')"
proof -
  have c: "canonicalIndex ''1'' = Some 1"
    by (simp add: canonicalIndex_def isDigit_def digitVal_def)
  have l: "1 < length (fvalue (FromJS ''abc'' (Origin None ''abc'' [] [] None)))" by simp
  show ?thesis
    using c l proxy_reads_plain_string
      [of "FromJS ''abc'' (Origin None ''abc'' [] [] None)" "''1''" 1]
    by simp
qed

subsection \<open>One segment for \<open>slice\<close> and \<open>substr\<close>\<close>

lemma sliceCall_one_segment:
  "sliceCall oldValue from to = (newVal, vm, ivs) \<Longrightarrow>
     vm = [\<lparr> seg_origin = forigin oldValue, originOffset = from, seg_length = length newVal \<rparr>]"
  by (auto simp: sliceCall_def Let_def appendString_def)

lemma substrCall_one_segment:
  "substrCall oldValue start len = (newVal, vm, ivs) \<Longrightarrow>
     vm = [\<lparr> seg_origin = forigin oldValue,
             originOffset = (if start < 0 then int (length (fvalue oldValue)) + start else start),
             seg_length = length newVal \<rparr>]"
  by (auto simp: substrCall_def Let_def appendString_def)

text \<open>
  C4. \<open>"hello world".slice(6, 11)\<close> gives \<open>"world"\<close> with one segment at offset 6 of
  length 5, and \<open>substr(-5)\<close> gives the same string with one segment at offset 6;
  but \<open>slice(-5)\<close> gives it with one segment at offset \<open>-5\<close>: the handler adds the
  length to a negative end index only, and the start index goes into the segment as
  it came. The end index is corrected twice, by the handler and by the native
  \<open>slice\<close>: \<open>"abc".slice(0, -5)\<close> gives \<open>"a"\<close> where the native call gives the empty
  string.
\<close>

theorem slice_negative_start_not_normalized:
  "fst (sliceCall (FromJS ''hello world'' org) 6 (Some 11)) = ''world''
   \<and> fst (snd (sliceCall (FromJS ''hello world'' org) 6 (Some 11)))
       = [\<lparr> seg_origin = org, originOffset = 6, seg_length = 5 \<rparr>]
   \<and> fst (sliceCall (FromJS ''hello world'' org) (- 5) None) = ''world''
   \<and> fst (snd (sliceCall (FromJS ''hello world'' org) (- 5) None))
       = [\<lparr> seg_origin = org, originOffset = - 5, seg_length = 5 \<rparr>]
   \<and> fst (substrCall (FromJS ''hello world'' org) (- 5) None) = ''world''
   \<and> fst (snd (substrCall (FromJS ''hello world'' org) (- 5) None))
       = [\<lparr> seg_origin = org, originOffset = 6, seg_length = 5 \<rparr>]
   \<and> fst (sliceCall (FromJS ''abc'' org) 0 (Some (- 5))) = ''a''
   \<and> js_slice ''abc'' 0 (Some (- 5)) = []"
  by (simp add: sliceCall_def substrCall_def js_slice_def js_substr_def appendString_def Let_def)

subsection \<open>The Value Map of \<open>replace\<close> and the output\<close>

lemma partitions_segmentRanges:
  "partitions start (start + sum_list (map seg_length vm)) (segmentRanges start vm)"
  by (induction vm arbitrary: start) (simp_all add: add.assoc [symmetric])

lemma arrayAt_first: "arrayAt (x # xs) 0 = x"
  by (simp add: arrayAt_def)

lemma arrayAt_last_two:
  "arrayAt (x # cs @ [a, b]) (int (length (x # cs @ [a, b])) - 2) = a"
  "arrayAt (x # cs @ [a, b]) (int (length (x # cs @ [a, b])) - 1) = b"
proof -
  have n: "nat (int (length cs) + 1) = Suc (length cs)" "nat (int (length cs) + 2) = Suc (Suc (length cs))"
    by simp_all
  have l: "int (length (x # cs @ [a, b])) - 2 = int (length cs) + 1"
    "int (length (x # cs @ [a, b])) - 1 = int (length cs) + 2" by simp_all
  show "arrayAt (x # cs @ [a, b]) (int (length (x # cs @ [a, b])) - 2) = a"
    unfolding l by (simp add: arrayAt_def n nth_append del: of_nat_add)
  show "arrayAt (x # cs @ [a, b]) (int (length (x # cs @ [a, b])) - 1) = b"
    unfolding l by (simp add: arrayAt_def n nth_append del: of_nat_add)
qed

lemma arraySlice_middle:
  "arraySlice (x # cs @ [a, b]) 1 (int (length (x # cs @ [a, b])) - 2) = cs"
proof -
  have l: "int (length (x # cs @ [a, b])) - 2 = int (length cs) + 1" by simp
  show ?thesis
    unfolding l by (simp add: arraySlice_def Let_def min_def max_def)
qed

lemma replacerArguments_plain:
  assumes "m_groups m = None"
  shows "replacerArguments m p S
           = CString (m_text m) # map captureArgument (m_captures m) @ [CNumber p, CString S]"
  using assms by (simp add: replacerArguments_def)

lemma mapResult_wrapSubmatch:
  "\<exists>subs. mapResult (wrapSubmatch oldValue (CNumber p) (CString t)) (map captureArgument caps)
            = Inr subs"
  by (induction caps)
    (auto simp: wrapSubmatch_def captureArgument_def split: option.splits)

lemma replaceCallback_effect:
  assumes "m_groups m = None"
    and "replaceCallback rt oldValue pat rep ivs st (replacerArguments m p S) = Inr (v, st')"
  shows "\<exists>org subs. valueMap st' =
           valueMap st @
             [\<lparr> seg_origin = forigin oldValue,
                originOffset = int (length (inputMappedSoFar st)),
                seg_length = length (js_substring (fvalue oldValue)
                               (length (inputMappedSoFar st)) (Some p)) \<rparr>,
              \<lparr> seg_origin = org, originOffset = 0, seg_length = length v \<rparr>]
         \<and> inputMappedSoFar st' =
             inputMappedSoFar st
               @ js_substring (fvalue oldValue) (length (inputMappedSoFar st)) (Some p)
               @ m_text m
         \<and> replaceWith rt pat rep ivs (CString (m_text m)) subs (CNumber p) (CString S)
              = Inr (v, org)"
proof -
  let ?A = "CString (m_text m) # map captureArgument (m_captures m) @ [CNumber p, CString S]"
  have A: "replacerArguments m p S = ?A" using assms(1) by (rule replacerArguments_plain)
  have r0: "arrayAt ?A 0 = CString (m_text m)" by (rule arrayAt_first)
  have r1: "arrayAt ?A (int (length ?A) - 2) = CNumber p" by (rule arrayAt_last_two(1))
  have r2: "arrayAt ?A (int (length ?A) - 1) = CString S" by (rule arrayAt_last_two(2))
  have r3: "arraySlice ?A 1 (int (length ?A) - 2) = map captureArgument (m_captures m)"
    by (rule arraySlice_middle)
  obtain subs where subs:
    "mapResult (wrapSubmatch oldValue (CNumber p) (CString (m_text m)))
       (map captureArgument (m_captures m)) = Inr subs"
    using mapResult_wrapSubmatch by blast
  from assms(2) show ?thesis
    unfolding A replaceCallback_def Let_def r0 r1 r2 r3 subs
    by (auto simp: appendString_def split: sum.splits)
qed

lemma js_substring_between:
  "a \<le> b \<Longrightarrow> b \<le> length S \<Longrightarrow> js_substring S a (Some b) = take (b - a) (drop a S)"
  by (simp add: js_substring_def Let_def min_def max_def)

lemma js_substring_rest:
  "a \<le> length S \<Longrightarrow> js_substring S a None = drop a S"
  by (simp add: js_substring_def Let_def min_def max_def)

lemma nativeReplaceLoop_invariant:
  assumes "wfMatches S nsp ms"
    and "list_all P ms"
    and "I acc nsp st"
    and "nsp \<le> length S"
    and step: "\<And>st m repl st' acc nsp.
           I acc nsp st \<Longrightarrow> P m \<Longrightarrow> nsp \<le> m_index m \<Longrightarrow>
           m_index m + length (m_text m) \<le> length S \<Longrightarrow>
           take (length (m_text m)) (drop (m_index m) S) = m_text m \<Longrightarrow>
           cb st (replacerArguments m (m_index m) S) = Inr (repl, st') \<Longrightarrow>
           I (acc @ take (m_index m - nsp) (drop nsp S) @ repl) (m_index m + length (m_text m)) st'"
    and "nativeReplaceLoop S cb ms acc nsp st = Inr (out, st')"
  shows "\<exists>acc' nsp'. out = acc' @ drop nsp' S \<and> I acc' nsp' st' \<and> nsp' \<le> length S"
  using assms(1,2,3,4,6)
proof (induction ms arbitrary: acc nsp st)
  case Nil
  then show ?case by auto
next
  case (Cons m ms)
  from Cons.prems(1) have le: "nsp \<le> m_index m"
    and inr: "m_index m + length (m_text m) \<le> length S"
    and text_eq: "take (length (m_text m)) (drop (m_index m) S) = m_text m"
    and rest: "wfMatches S (m_index m + length (m_text m)) ms"
    by simp_all
  from Cons.prems(2) have Pm: "P m" and Pms: "list_all P ms" by simp_all
  have pos: "min (m_index m) (length S) = m_index m" using inr by simp
  from Cons.prems(5) obtain repl st1
    where cb: "cb st (replacerArguments m (m_index m) S) = Inr (repl, st1)"
    and rec: "nativeReplaceLoop S cb ms (acc @ take (m_index m - nsp) (drop nsp S) @ repl)
                (m_index m + length (m_text m)) st1 = Inr (out, st')"
    using le by (auto simp: pos Let_def split: sum.splits)
  have I1: "I (acc @ take (m_index m - nsp) (drop nsp S) @ repl) (m_index m + length (m_text m)) st1"
    using step [OF Cons.prems(3) Pm le inr text_eq cb] .
  show ?case using Cons.IH [OF rest Pms I1 inr rec] .
qed

lemma indexOfFrom_sound:
  "indexOfFrom p s i = Some j \<Longrightarrow>
     i \<le> j \<and> (j - i) + length p \<le> length s \<and> take (length p) (drop (j - i) s) = p"
proof (induction s arbitrary: i)
  case Nil
  then show ?case by (auto split: if_splits)
next
  case (Cons c cs)
  show ?case
  proof (cases "take (length p) (c # cs) = p")
    case True
    then have "length (take (length p) (c # cs)) = length p" by simp
    then have "length p \<le> length (c # cs)" by simp
    with True Cons.prems show ?thesis by auto
  next
    case False
    with Cons.prems have "indexOfFrom p cs (Suc i) = Some j" by simp
    from Cons.IH [OF this] have "Suc i \<le> j" "(j - Suc i) + length p \<le> length cs"
      "take (length p) (drop (j - Suc i) cs) = p" by auto
    moreover then have "j - i = Suc (j - Suc i)" by simp
    ultimately show ?thesis by simp
  qed
qed

lemma wfMatches_take: "wfMatches S pos ms \<Longrightarrow> wfMatches S pos (take n ms)"
  by (induction ms arbitrary: pos n) (auto simp: take_Cons split: nat.splits)

lemma nativeMatches_wf:
  assumes "engineSound pat S"
  shows "wfMatches S 0 (nativeMatches S pat)"
proof (cases pat)
  case (PString a)
  then show ?thesis
    by (auto split: option.splits dest: indexOfFrom_sound)
next
  case (PRegExp r)
  then show ?thesis using assms by (auto intro: wfMatches_take)
qed

lemma list_all_take: "list_all P xs \<Longrightarrow> list_all P (take n xs)"
  by (induction xs arbitrary: n) (auto simp: take_Cons split: nat.splits)

lemma nativeMatches_withoutGroups:
  assumes "withoutGroupsObject pat S"
  shows "list_all (\<lambda>m. m_groups m = None) (nativeMatches S pat)"
proof (cases pat)
  case (PString a)
  then show ?thesis by (auto split: option.splits)
next
  case (PRegExp r)
  then show ?thesis using assms by (auto intro: list_all_take)
qed

lemma replaceCall_lengths:
  assumes wf: "engineSound pat (fvalue oldValue)"
    and ng: "withoutGroupsObject pat (fvalue oldValue)"
    and call: "replaceCall rt oldValue pat rep = Inr (newVal, vm, ivs)"
  shows "sum_list (map seg_length vm) = length newVal"
proof -
  define S where "S = fvalue oldValue"
  define ivs0 where "ivs0 = [forigin oldValue, patternOrigin pat, replacementOrigin rep]"
  define cb where "cb = replaceCallback rt oldValue pat rep ivs0"
  define I where "I = (\<lambda>(acc::string) nsp (st::rstate).
      length acc = sum_list (map seg_length (valueMap st)) \<and> length (inputMappedSoFar st) = nsp)"
  from call obtain st where loop:
    "nativeReplaceLoop S cb (nativeMatches S pat) [] 0 \<lparr> valueMap = [], inputMappedSoFar = [] \<rparr>
       = Inr (newVal, st)"
    and vm: "vm = appendString (js_substring S (length (inputMappedSoFar st)) None)
                (forigin oldValue) (int (length (inputMappedSoFar st))) (valueMap st)"
    by (auto simp: replaceCall_def nativeReplace_def Let_def S_def cb_def ivs0_def
        split: sum.splits)
  have wf0: "wfMatches S 0 (nativeMatches S pat)"
    using wf unfolding S_def by (rule nativeMatches_wf)
  have ng0: "list_all (\<lambda>m. m_groups m = None) (nativeMatches S pat)"
    using ng unfolding S_def by (rule nativeMatches_withoutGroups)
  have I0: "I [] 0 \<lparr> valueMap = [], inputMappedSoFar = [] \<rparr>" by (simp add: I_def)
  have step: "I (acc @ take (m_index m - nsp) (drop nsp S) @ repl) (m_index m + length (m_text m)) st'"
    if "I acc nsp st" "m_groups m = None" "nsp \<le> m_index m"
      "m_index m + length (m_text m) \<le> length S"
      "take (length (m_text m)) (drop (m_index m) S) = m_text m"
      "cb st (replacerArguments m (m_index m) S) = Inr (repl, st')"
    for st m repl st' acc nsp
  proof -
    from that(1) have n: "length (inputMappedSoFar st) = nsp"
      and a: "length acc = sum_list (map seg_length (valueMap st))" by (simp_all add: I_def)
    have sub: "js_substring S nsp (Some (m_index m)) = take (m_index m - nsp) (drop nsp S)"
      using js_substring_between that(3,4) by simp
    from replaceCallback_effect [OF that(2) that(6) [unfolded cb_def]]
    show ?thesis
      using n a sub that(3,4) by (auto simp: I_def S_def)
  qed
  have z: "0 \<le> length S" by simp
  have "\<exists>acc' nsp'. newVal = acc' @ drop nsp' S \<and> I acc' nsp' st \<and> nsp' \<le> length S"
    by (rule nativeReplaceLoop_invariant
        [where I = I and cb = cb and P = "\<lambda>m. m_groups m = None", OF wf0 ng0 I0 z step loop])
  then obtain acc' nsp' where out: "newVal = acc' @ drop nsp' S" and I': "I acc' nsp' st"
    and le: "nsp' \<le> length S" by blast
  show ?thesis
    using out I' le vm by (simp add: I_def appendString_def js_substring_rest)
qed






lemma valueMap_partitions_without_groups:
  "(engineSound pat (fvalue oldValue) \<longrightarrow> withoutGroupsObject pat (fvalue oldValue) \<longrightarrow>
      replaceCall rt oldValue pat rep = Inr (newVal, vm, ivs) \<longrightarrow>
        partitions 0 (length newVal) (segmentRanges 0 vm)
        \<and> sum_list (map seg_length vm) = length newVal)
   \<and> partitions 0 (length (fst (sliceCall oldValue from to)))
         (segmentRanges 0 (fst (snd (sliceCall oldValue from to))))
   \<and> sum_list (map seg_length (fst (snd (sliceCall oldValue from to))))
       = length (fst (sliceCall oldValue from to))
   \<and> partitions 0 (length (fst (substrCall oldValue start len)))
         (segmentRanges 0 (fst (snd (substrCall oldValue start len))))
   \<and> sum_list (map seg_length (fst (snd (substrCall oldValue start len))))
       = length (fst (substrCall oldValue start len))"
proof (intro conjI impI)
  assume sound: "engineSound pat (fvalue oldValue)"
    and ng: "withoutGroupsObject pat (fvalue oldValue)"
    and call: "replaceCall rt oldValue pat rep = Inr (newVal, vm, ivs)"
  show sum: "sum_list (map seg_length vm) = length newVal"
    using sound ng call by (rule replaceCall_lengths)
  show "partitions 0 (length newVal) (segmentRanges 0 vm)"
    using partitions_segmentRanges [of 0 vm] sum by simp
qed (simp_all add: sliceCall_def substrCall_def Let_def appendString_def)

text \<open>
  C1. With a regular expression that has a named group the runtime hands the
  callback the groups object as its last argument, so what the callback takes for
  the offset is the whole string, which \<open>substring\<close> reads as position 0:
  \<open>"bb".replace(/(?<x>b)/g, "X")\<close> gives \<open>"XX"\<close>, and the Value Map has
  segments of lengths 0, 1, 1, 1, 0. The lengths add up to 3, the output has
  length 2, and the ranges do not partition it, although the engine is sound for
  the pattern. Without a groups object the Value Map covers the output
  (\<open>valueMap_partitions_without_groups\<close>).
\<close>

theorem named_group_replace_overruns_output:
  "engineSound (PRegExp (namedCharRegExp CHR ''b'' ''x'' True)) ''bb''
   \<and> replaceCall rt (FromJS ''bb'' org)
        (PRegExp (namedCharRegExp CHR ''b'' ''x'' True)) (RepString (Plain ''X''))
      = Inr (''XX'',
          [\<lparr> seg_origin = org, originOffset = 0, seg_length = 0 \<rparr>,
           \<lparr> seg_origin = untrackedArgument ''X'', originOffset = 0, seg_length = 1 \<rparr>,
           \<lparr> seg_origin = org, originOffset = 1, seg_length = 1 \<rparr>,
           \<lparr> seg_origin = untrackedArgument ''X'', originOffset = 0, seg_length = 1 \<rparr>,
           \<lparr> seg_origin = org, originOffset = 3, seg_length = 0 \<rparr>],
          [org, otherArgumentOrigin ''/(?<x>b)/g'', untrackedArgument ''X''])
   \<and> sum_list (map seg_length
          [\<lparr> seg_origin = org, originOffset = 0, seg_length = 0 \<rparr>,
           \<lparr> seg_origin = untrackedArgument ''X'', originOffset = 0, seg_length = 1 \<rparr>,
           \<lparr> seg_origin = org, originOffset = 1, seg_length = 1 \<rparr>,
           \<lparr> seg_origin = untrackedArgument ''X'', originOffset = 0, seg_length = 1 \<rparr>,
           \<lparr> seg_origin = org, originOffset = 3, seg_length = 0 \<rparr>]) = 3
   \<and> length ''XX'' = 2
   \<and> \<not> partitions 0 (length ''XX'') (segmentRanges 0
          [\<lparr> seg_origin = org, originOffset = 0, seg_length = 0 \<rparr>,
           \<lparr> seg_origin = untrackedArgument ''X'', originOffset = 0, seg_length = 1 \<rparr>,
           \<lparr> seg_origin = org, originOffset = 1, seg_length = 1 \<rparr>,
           \<lparr> seg_origin = untrackedArgument ''X'', originOffset = 0, seg_length = 1 \<rparr>,
           \<lparr> seg_origin = org, originOffset = 3, seg_length = 0 \<rparr>])"
  by (simp add: replaceCall_def nativeReplace_def replaceCallback_def replaceWith_def
      replacerArguments_def captureArgument_def arrayAt_def arraySlice_def wrapSubmatch_def
      stringToInteger_def isDigit_def js_substring_def appendString_def Let_def
      namedCharRegExp_def)

subsection \<open>The scenario \<open>"foo".replace("o", "0")\<close>\<close>

text \<open>
  C3 as stated fails: the call does not give \<open>"f00"\<close>, whatever Value Map comes
  with it.
\<close>

theorem replace_foo_not_f00:
  "\<not> (\<exists>vm ivs.
        replaceCall \<lparr> execEmptyLength = (\<lambda>s. Some 1), numericReading = (\<lambda>s. Finite 0) \<rparr>
          (FromJS ''foo'' (Origin None ''foo'' [] [] None))
          (PString (Plain ''o'')) (RepString (Plain ''0'')) = Inr (''f00'', vm, ivs))"
  by (simp add: replaceCall_def nativeReplace_def replaceCallback_def replaceWith_def
      replacerArguments_def captureArgument_def arrayAt_def arraySlice_def
      js_substring_def appendString_def Let_def)

text \<open>
  C3, amended. A string pattern is replaced at its first occurrence only: the call
  gives \<open>"f0o"\<close> with three segments, \<open>"f"\<close> (offset 0, length 1) of the original
  string's origin, \<open>"0"\<close> (offset 0, length 1) of the replacement's own
  untracked-argument origin, and \<open>"o"\<close> (offset 2, length 1) of the original
  string's origin.
\<close>

theorem replace_foo_first_occurrence:
  "replaceCall e (FromJS ''foo'' org) (PString (Plain ''o'')) (RepString (Plain ''0''))
     = Inr (''f0o'',
         [\<lparr> seg_origin = org, originOffset = 0, seg_length = 1 \<rparr>,
          \<lparr> seg_origin = untrackedArgument ''0'', originOffset = 0, seg_length = 1 \<rparr>,
          \<lparr> seg_origin = org, originOffset = 2, seg_length = 1 \<rparr>],
         [org, untrackedArgument ''o'', untrackedArgument ''0''])"
  by (simp add: replaceCall_def nativeReplace_def replaceCallback_def replaceWith_def
      replacerArguments_def captureArgument_def arrayAt_def arraySlice_def
      js_substring_def appendString_def Let_def)

subsection \<open>Reading the output back from the segments' sources\<close>




subsection \<open>Fragments of \<open>split\<close> and where they stand\<close>

lemma splitOn_nonempty: "splitOn sep cur rest \<noteq> []"
  by (induction sep cur rest rule: splitOn.induct) auto

lemma joinWith_splitOn: "sep \<noteq> [] \<Longrightarrow> joinWith sep (splitOn sep cur rest) = cur @ rest"
proof (induction sep cur rest rule: splitOn.induct)
  case (1 sep cur)
  then show ?case by simp
next
  case (2 sep cur c cs)
  show ?case
  proof (cases "take (length sep) (c # cs) = sep")
    case True
    obtain y ys where sp: "splitOn sep [] (drop (length sep) (c # cs)) = y # ys"
      using splitOn_nonempty [of sep "[]" "drop (length sep) (c # cs)"]
      by (cases "splitOn sep [] (drop (length sep) (c # cs))") auto
    have "joinWith sep (splitOn sep [] (drop (length sep) (c # cs))) = drop (length sep) (c # cs)"
      using 2 True by simp
    moreover have "sep @ drop (length sep) (c # cs) = c # cs"
      using True by (metis append_take_drop_id)
    ultimately show ?thesis using True 2(3) sp by simp
  next
    case False
    then show ?thesis using 2 by simp
  qed
qed

lemma forEachFragment_located:
  assumes "joinWith p res = drop pos S" and "pos \<le> length S"
    and "\<forall>j. i \<le> j \<and> j < i + length res - 1 \<longrightarrow> j < length seps \<and> seps ! j = p"
  shows "\<exists>frags. forEachFragment ivs (Some seps) res i pos = Inr frags
           \<and> map fvalue frags = res \<and> wellLocated S (length p) pos frags"
  using assms
proof (induction p res arbitrary: i pos rule: joinWith.induct)
  case (1 sep)
  then show ?case by simp
next
  case (2 sep x)
  then have "x = drop pos S" by simp
  then show ?case using 2(2) by (simp add: Let_def)
next
  case (3 sep x y ys)
  let ?pos' = "pos + length x + length sep"
  from 3(2) have eq: "x @ sep @ joinWith sep (y # ys) = drop pos S" by simp
  then have "length (x @ sep @ joinWith sep (y # ys)) = length S - pos" by simp
  then have lens: "length x + length sep + length (joinWith sep (y # ys)) = length S - pos"
    by simp
  have x: "take (length x) (drop pos S) = x" unfolding eq [symmetric] by simp
  have "drop (length x + length sep) (drop pos S) = joinWith sep (y # ys)"
    unfolding eq [symmetric] by simp
  then have rest: "joinWith sep (y # ys) = drop ?pos' S"
    by (simp add: add.commute add.left_commute)
  have le: "?pos' \<le> length S" using lens 3(3) by simp
  have here: "i < length seps \<and> seps ! i = sep" using 3(4) by simp
  have later: "\<forall>j. Suc i \<le> j \<and> j < Suc i + length (y # ys) - 1
                 \<longrightarrow> j < length seps \<and> seps ! j = sep"
    using 3(4) by simp
  have "\<exists>frags. forEachFragment ivs (Some seps) (y # ys) (Suc i) ?pos' = Inr frags
           \<and> map fvalue frags = y # ys \<and> wellLocated S (length sep) ?pos' frags"
    using rest le later by (rule 3(1))
  then obtain frags where
    f: "forEachFragment ivs (Some seps) (y # ys) (Suc i) ?pos' = Inr frags"
    and m: "map fvalue frags = y # ys" and w: "wellLocated S (length sep) ?pos' frags"
    by auto
  have "forEachFragment ivs (Some seps) (x # y # ys) i pos
          = Inr (FromJS x (Origin (Some ''Split Call'') x ivs [IndexNumber (int pos)] None) # frags)"
    using f here
    by (simp add: Let_def forEachFragment.simps(2) [of ivs "Some seps" x "y # ys" i pos]
        del: forEachFragment.simps)
  then show ?case
    using m w x le by (simp del: forEachFragment.simps)
qed

lemma js_split_join: "joinWith sep (js_split S sep) = S"
proof (cases "sep = []")
  case True
  have "joinWith [] (map (\<lambda>c. [c]) S) = S"
    by (induction S rule: induct_list012) simp_all
  with True show ?thesis by (simp add: js_split_def)
next
  case False
  then show ?thesis by (simp add: js_split_def joinWith_splitOn)
qed

lemma splitCall_string_located:
  "\<exists>frags. splitCall oldValue (SepString a) None = Inr frags
     \<and> map fvalue frags = js_split (fvalue oldValue) (argValue a)
     \<and> wellLocated (fvalue oldValue) (length (argValue a)) 0 frags"
proof -
  let ?S = "fvalue oldValue" and ?p = "argValue a"
  let ?res = "js_split ?S ?p"
  have j: "joinWith ?p ?res = drop 0 ?S" by (simp add: js_split_join)
  have seps: "\<forall>j. 0 \<le> j \<and> j < 0 + length ?res - 1 \<longrightarrow>
      j < length (replicate (length ?res - 1) ?p) \<and> replicate (length ?res - 1) ?p ! j = ?p"
    by simp
  have call: "splitCall oldValue (SepString a) None
      = forEachFragment (forigin oldValue # separatorOrigins (SepString a))
          (Some (replicate (length ?res - 1) ?p)) ?res 0 0"
    by (simp add: splitCall_def Let_def)
  have "0 \<le> length ?S" by simp
  from forEachFragment_located [OF j this seps,
      where ivs = "forigin oldValue # separatorOrigins (SepString a)"]
  show ?thesis unfolding call by auto
qed

text \<open>
  C5. With a string separator every fragment is recorded where it stands
  (\<open>splitCall_string_located\<close>), and \<open>"a,b,c".split(",")\<close> gives \<open>"a"\<close>, \<open>"b"\<close>,
  \<open>"c"\<close> at 0, 2, 4. With a regular expression that matches nowhere the native
  \<open>split\<close> gives the whole string as one fragment, but the handler throws:
  \<open>separators\<close> is \<open>null\<close>. With a separator that is neither a string nor a
  regular expression no separator length is skipped: \<open>"a1b".split(1)\<close> records
  \<open>"b"\<close> at 1, and it stands at 2.
\<close>

theorem split_regexp_without_match_throws:
  "nativeSplit ''abc'' (SepRegExp (charRegExp CHR ''x'' False)) = [''abc'']
   \<and> splitCall (FromJS ''abc'' org) (SepRegExp (charRegExp CHR ''x'' False)) None
       = Inl TypeError
   \<and> splitCall (FromJS ''a1b'' org) (SepOther ''1'') None
       = Inr [FromJS ''a'' (Origin (Some ''Split Call'') ''a''
                 [org, otherArgumentOrigin ''1''] [IndexNumber 0] None),
              FromJS ''b'' (Origin (Some ''Split Call'') ''b''
                 [org, otherArgumentOrigin ''1''] [IndexNumber 1] None)]
   \<and> splitCall (FromJS ''a,b,c'' org) (SepString (Plain '','')) None
       = Inr [FromJS ''a'' (Origin (Some ''Split Call'') ''a''
                 [org, untrackedArgument '',''] [IndexNumber 0] None),
              FromJS ''b'' (Origin (Some ''Split Call'') ''b''
                 [org, untrackedArgument '',''] [IndexNumber 2] None),
              FromJS ''c'' (Origin (Some ''Split Call'') ''c''
                 [org, untrackedArgument '',''] [IndexNumber 4] None)]"
  by (simp add: splitCall_def js_split_def charRegExp_def matchGlobal_def Let_def)

end
